theory Spec2Isabelle
  imports Complex_Main "HOL-Library.Char_ord" "HOL-Library.List_Lexorder"
begin

section \<open>Errors\<close>

text \<open>
  The exceptions that the functions of \<^verbatim>\<open>ingestion/awc.py\<close> can raise. A function that may
  raise returns \<open>error + 'a\<close>, with \<open>Inl\<close> for the exception.
\<close>

datatype error =
  ValueError | KeyError | ZeroDivisionError | FileNotFoundError | AttributeError
  | ParserError | TimestampOutOfRange

section \<open>Python string primitives\<close>

text \<open>
  Strings are lists of characters. \<open>is_space\<close> holds of the characters that
  \<^verbatim>\<open>str.split()\<close> and \<^verbatim>\<open>str.strip()\<close> treat as white space, among the first 128 code points.
\<close>

definition is_space :: "char \<Rightarrow> bool" where
  "is_space c \<longleftrightarrow> c \<in> set [CHR 0x09, CHR 0x0A, CHR 0x0B, CHR 0x0C, CHR 0x0D,
     CHR 0x1C, CHR 0x1D, CHR 0x1E, CHR 0x1F, CHR 0x20]"

definition is_digit :: "char \<Rightarrow> bool" where
  "is_digit c \<longleftrightarrow> c \<in> set ''0123456789''"

definition digit_val :: "char \<Rightarrow> nat" where
  "digit_val c = of_char c - 48"

text \<open>\<^verbatim>\<open>s.strip()\<close>: white space removed at both ends.\<close>

definition strip :: "string \<Rightarrow> string" where
  "strip s = rev (dropWhile is_space (rev (dropWhile is_space s)))"

text \<open>\<^verbatim>\<open>s[a:b]\<close> for \<open>0 \<le> a \<le> b\<close>; a slice past the end is cut short, as in Python.\<close>

definition slice :: "nat \<Rightarrow> nat \<Rightarrow> 'a list \<Rightarrow> 'a list" where
  "slice a b s = take (b - a) (drop a s)"

text \<open>
  \<^verbatim>\<open>s.split()\<close>: the maximal runs of characters that are not white space, in order.
  \<open>split_acc cur s\<close> carries the token being read.
\<close>

fun split_acc :: "string \<Rightarrow> string \<Rightarrow> string list" where
  "split_acc cur [] = (if cur = [] then [] else [cur])"
| "split_acc cur (c # cs) =
     (if is_space c then (if cur = [] then split_acc [] cs else cur # split_acc [] cs)
      else split_acc (cur @ [c]) cs)"

definition split_ws :: "string \<Rightarrow> string list" where
  "split_ws s = split_acc [] s"

text \<open>
  \<^verbatim>\<open>int(s)\<close> in base ten: white space stripped, an optional sign, then digits, where single
  underscores may stand between digits. Anything else raises \<^verbatim>\<open>ValueError\<close>.
\<close>

fun int_body_ok :: "string \<Rightarrow> bool" where
  "int_body_ok [] = False"
| "int_body_ok [c] = is_digit c"
| "int_body_ok (c # d # cs) =
     (is_digit c \<and> (if d = CHR ''_'' then int_body_ok cs else int_body_ok (d # cs)))"

definition digits_val :: "string \<Rightarrow> nat" where
  "digits_val s = foldl (\<lambda>a c. 10 * a + digit_val c) 0 s"

definition py_int :: "string \<Rightarrow> error + int" where
  "py_int s =
     (let t = strip s;
          neg = (t \<noteq> [] \<and> hd t = CHR ''-'');
          body = (if t \<noteq> [] \<and> (hd t = CHR ''-'' \<or> hd t = CHR ''+'') then tl t else t)
      in if int_body_ok body
         then Inr ((if neg then - 1 else 1) * int (digits_val (filter is_digit body)))
         else Inl ValueError)"

section \<open>Station registry\<close>

record station =
  state_code :: string
  name :: string
  code4 :: string
  longitude :: real
  latitude :: real
  elevation :: string
  raw :: string

text \<open>
  \<^verbatim>\<open>_lng\<close> and \<^verbatim>\<open>_lat\<close>. The unpacking \<^verbatim>\<open>degree, minute = s.split()\<close> raises \<^verbatim>\<open>ValueError\<close>
  unless there are exactly two tokens; \<^verbatim>\<open>minute[:-1]\<close> is \<open>butlast minute\<close>; the sign is
  decided by the last character of the whole argument, \<^verbatim>\<open>s[-1]\<close>. Python floats are
  taken as real numbers.
\<close>

definition lng :: "string \<Rightarrow> error + real" where
  "lng lngstr =
     (case split_ws lngstr of
        [degree, minute] \<Rightarrow>
          (case py_int degree of
             Inl e \<Rightarrow> Inl e
           | Inr d \<Rightarrow>
               (case py_int (butlast minute) of
                  Inl e \<Rightarrow> Inl e
                | Inr m \<Rightarrow>
                    let abs_decimal = real_of_int d + real_of_int m / 60
                    in Inr (if last lngstr = CHR ''W'' then - abs_decimal else abs_decimal)))
      | _ \<Rightarrow> Inl ValueError)"

definition lat :: "string \<Rightarrow> error + real" where
  "lat latstr =
     (case split_ws latstr of
        [degree, minute] \<Rightarrow>
          (case py_int degree of
             Inl e \<Rightarrow> Inl e
           | Inr d \<Rightarrow>
               (case py_int (butlast minute) of
                  Inl e \<Rightarrow> Inl e
                | Inr m \<Rightarrow>
                    let abs_decimal = real_of_int d + real_of_int m / 60
                    in Inr (if last latstr = CHR ''S'' then - abs_decimal else abs_decimal)))
      | _ \<Rightarrow> Inl ValueError)"

text \<open>
  \<^verbatim>\<open>fetch_stations\<close>. The argument is what \<^verbatim>\<open>readlines()\<close> returns (each line with its
  line terminator), or \<open>None\<close> when the path does not exist. The registry is a dictionary
  from the four-letter code to the station; a later line with the same code replaces an
  earlier one. The keyword arguments of \<^verbatim>\<open>Station(...)\<close> are evaluated in the order
  written, so \<^verbatim>\<open>_lat\<close> is called before \<^verbatim>\<open>_lng\<close>.
\<close>

fun fetch_lines :: "(string \<rightharpoonup> station) \<Rightarrow> string list \<Rightarrow> error + (string \<rightharpoonup> station)" where
  "fetch_lines stations [] = Inr stations"
| "fetch_lines stations (line # lines) =
     (if strip line = [] then fetch_lines stations lines
      else if take 1 line = ''!'' then fetch_lines stations lines
      else if length line \<noteq> 84 then fetch_lines stations lines
      else
        (case lat (slice 39 46 line) of
           Inl e \<Rightarrow> Inl e
         | Inr la \<Rightarrow>
             (case lng (slice 47 54 line) of
                Inl e \<Rightarrow> Inl e
              | Inr lo \<Rightarrow>
                  fetch_lines
                    (stations(slice 20 24 line \<mapsto>
                       \<lparr>state_code = slice 0 2 line,
                        name = strip (slice 3 19 line),
                        code4 = slice 20 24 line,
                        longitude = lo,
                        latitude = la,
                        elevation = strip (slice 55 59 line),
                        raw = line\<rparr>))
                    lines)))"

definition fetch_stations :: "string list option \<Rightarrow> error + (string \<rightharpoonup> station)" where
  "fetch_stations station_file =
     (case station_file of
        None \<Rightarrow> Inl FileNotFoundError
      | Some lines \<Rightarrow> fetch_lines Map.empty lines)"

section \<open>Double-precision numbers\<close>

text \<open>
  The humidity functions compute with Python floats and \<^verbatim>\<open>numpy.float64\<close>, which are
  IEEE doubles: a finite number, an infinity or not-a-number. A finite result that is
  too large for a double becomes an infinity: \<open>overflow_threshold\<close> is the midpoint
  between the largest double and \<open>2 ^ 1024\<close>, from which rounding to nearest gives an
  infinity. \<^verbatim>\<open>np.exp\<close> returns zero for a value at or below half the smallest positive
  double, \<open>1 / 2 ^ 1075\<close>. The rounding of the other finite results to the nearest
  double is not modelled: \<open>Fin r\<close> stands for the double nearest to \<open>r\<close>. The sign of a
  zero is not modelled either: a zero is positive.
\<close>

datatype float64 = Fin real | PInf | NInf | NaN

definition overflow_threshold :: real where
  "overflow_threshold = 2 ^ 1024 - 2 ^ 970"

definition fround :: "real \<Rightarrow> float64" where
  "fround r =
     (if overflow_threshold \<le> r then PInf
      else if r \<le> - overflow_threshold then NInf
      else Fin r)"

text \<open>The sign of a double that is not a NaN: 1, 0 or -1.\<close>

fun fl_sign :: "float64 \<Rightarrow> real" where
  "fl_sign (Fin a) = sgn a"
| "fl_sign PInf = 1"
| "fl_sign NInf = - 1"
| "fl_sign NaN = 0"

definition inf_of_sign :: "real \<Rightarrow> float64" where
  "inf_of_sign s = (if 0 \<le> s then PInf else NInf)"

text \<open>
  Multiplication, addition and division of doubles. An infinity times zero, the
  difference of two equal infinities, zero over zero and an infinity over an infinity
  are NaN. \<open>fl_div\<close> is the division of \<^verbatim>\<open>numpy.float64\<close>, which raises nothing.
\<close>

fun fl_mul :: "float64 \<Rightarrow> float64 \<Rightarrow> float64" where
  "fl_mul NaN y = NaN"
| "fl_mul x NaN = NaN"
| "fl_mul (Fin a) (Fin b) = fround (a * b)"
| "fl_mul x y =
     (if fl_sign x * fl_sign y = 0 then NaN else inf_of_sign (fl_sign x * fl_sign y))"

fun fl_add :: "float64 \<Rightarrow> float64 \<Rightarrow> float64" where
  "fl_add NaN y = NaN"
| "fl_add x NaN = NaN"
| "fl_add (Fin a) (Fin b) = fround (a + b)"
| "fl_add PInf NInf = NaN"
| "fl_add NInf PInf = NaN"
| "fl_add PInf y = PInf"
| "fl_add x PInf = PInf"
| "fl_add NInf y = NInf"
| "fl_add x NInf = NInf"

fun fl_div :: "float64 \<Rightarrow> float64 \<Rightarrow> float64" where
  "fl_div NaN y = NaN"
| "fl_div x NaN = NaN"
| "fl_div (Fin a) (Fin b) =
     (if b = 0 then (if a = 0 then NaN else inf_of_sign a) else fround (a / b))"
| "fl_div (Fin a) y = Fin 0"
| "fl_div x (Fin b) = inf_of_sign (fl_sign x * (if b < 0 then - 1 else 1))"
| "fl_div x y = NaN"

text \<open>Division of Python floats: a zero divisor raises \<^verbatim>\<open>ZeroDivisionError\<close>.\<close>

definition py_truediv :: "float64 \<Rightarrow> float64 \<Rightarrow> error + float64" where
  "py_truediv x y = (if y = Fin 0 then Inl ZeroDivisionError else Inr (fl_div x y))"

fun np_exp :: "float64 \<Rightarrow> float64" where
  "np_exp (Fin r) = (if exp r \<le> 1 / 2 ^ 1075 then Fin 0 else fround (exp r))"
| "np_exp PInf = PInf"
| "np_exp NInf = Fin 0"
| "np_exp NaN = NaN"

section \<open>Humidity\<close>

text \<open>
  \<^verbatim>\<open>saturation_vapor_pressure\<close> and \<^verbatim>\<open>relative_humidity_from_dewpoint\<close>. The arguments
  are finite Python floats. The product \<^verbatim>\<open>17.67 * t\<close>, the sum \<^verbatim>\<open>t + 243.5\<close> and their
  quotient are operations of Python floats; \<^verbatim>\<open>np.exp\<close> returns a \<^verbatim>\<open>numpy.float64\<close>, so
  the product with \<^verbatim>\<open>611.2\<close> and the quotient \<^verbatim>\<open>e / e_s\<close> are operations of numpy, where
  a division by zero gives an infinity or a NaN and raises nothing.
\<close>

definition saturation_vapor_pressure :: "real \<Rightarrow> error + float64" where
  "saturation_vapor_pressure temperature_celcius =
     (case py_truediv (fl_mul (Fin 17.67) (Fin temperature_celcius))
                      (fl_add (Fin temperature_celcius) (Fin 243.5)) of
        Inl err \<Rightarrow> Inl err
      | Inr q \<Rightarrow> Inr (fl_mul (Fin 611.2) (np_exp q)))"

definition relative_humidity_from_dewpoint :: "real \<Rightarrow> real \<Rightarrow> error + float64" where
  "relative_humidity_from_dewpoint temperature_celcius dewpoint_celcius =
     (case saturation_vapor_pressure dewpoint_celcius of
        Inl err \<Rightarrow> Inl err
      | Inr e \<Rightarrow>
          (case saturation_vapor_pressure temperature_celcius of
             Inl err \<Rightarrow> Inl err
           | Inr e_s \<Rightarrow> Inr (fl_div e e_s)))"

section \<open>Observation records\<close>

text \<open>
  A row is the dictionary built by \<^verbatim>\<open>_fetch_data_from_raw_metar\<close>, with the keys of
  \<^verbatim>\<open>FIELDS\<close> in their order. The station keys \<^verbatim>\<open>name, code, lng, lat, ele\<close> carry the
  prefix \<open>stn_\<close> here. A cell that the code fills with a number or with the empty string
  is a \<open>cell\<close>. The text written to a partition file and read back is not modelled: a
  file holds rows.
\<close>

datatype cell = Num real | Str string

record row =
  timestamp :: int
  stn_name :: string
  stn_code :: string
  stn_lng :: real
  stn_lat :: real
  stn_ele :: string
  temperature_c :: real
  dewpoint_c :: real
  relativehumidity :: float64
  pressure_mb :: real
  pressuresea_mb :: cell
  winddirection_deg :: real
  windspeed_kt :: real
  windgust_kt :: cell
  rawmetar :: string

text \<open>
  What the decoder \<^verbatim>\<open>Metar.Metar(raw, strict=False)\<close> exposes and the code reads. Each
  attribute may be \<^verbatim>\<open>None\<close>. Measurements are held in the unit the code asks for
  (\<^verbatim>\<open>C\<close>, \<^verbatim>\<open>MB\<close>, \<^verbatim>\<open>KT\<close>). \<open>time\<close> is a naive \<^verbatim>\<open>datetime\<close>, held as its number of
  seconds since 1970-01-01 00:00 on its own clock; \<^verbatim>\<open>.timestamp()\<close> reads a naive value
  as local time, so with the local clock \<open>tz\<close> seconds ahead of UTC the result is
  \<open>time - tz\<close>.
\<close>

record metar =
  station_id :: "string option"
  time :: "int option"
  temp :: "real option"
  dewpt :: "real option"
  press :: "real option"
  press_sea_level :: "real option"
  wind_dir :: "real option"
  wind_speed :: "real option"
  wind_gust :: "real option"

definition metar_valid :: "metar \<Rightarrow> bool" where
  "metar_valid m \<longleftrightarrow>
     time m \<noteq> None \<and> temp m \<noteq> None \<and> dewpt m \<noteq> None \<and> press m \<noteq> None
     \<and> wind_dir m \<noteq> None \<and> wind_speed m \<noteq> None"

text \<open>
  \<^verbatim>\<open>_fetch_data_from_raw_metar\<close>. The decoder is a parameter; it may raise on text it
  cannot parse. \<^verbatim>\<open>self.stations[metar_decoded.station_id]\<close> raises \<^verbatim>\<open>KeyError\<close> for a
  key that is not in the dictionary, \<^verbatim>\<open>None\<close> included, and it is evaluated before
  \<^verbatim>\<open>_metar_valid\<close>. \<open>Inr None\<close> is the return value \<^verbatim>\<open>None\<close>.
\<close>

definition fetch_data_from_raw_metar ::
  "(string \<Rightarrow> error + metar) \<Rightarrow> int \<Rightarrow> (string \<rightharpoonup> station) \<Rightarrow> string \<Rightarrow> error + row option"
where
  "fetch_data_from_raw_metar decoder tz stations metar_raw =
     (case decoder metar_raw of
        Inl e \<Rightarrow> Inl e
      | Inr metar_decoded \<Rightarrow>
          (case (case station_id metar_decoded of None \<Rightarrow> None | Some sid \<Rightarrow> stations sid) of
             None \<Rightarrow> Inl KeyError
           | Some station \<Rightarrow>
               if \<not> metar_valid metar_decoded then Inr None
               else
                 (case relative_humidity_from_dewpoint
                         (the (temp metar_decoded)) (the (dewpt metar_decoded)) of
                    Inl e \<Rightarrow> Inl e
                  | Inr rh \<Rightarrow>
                      Inr (Some
                        \<lparr>timestamp = the (time metar_decoded) - tz,
                         stn_name = name station,
                         stn_code = code4 station,
                         stn_lng = longitude station,
                         stn_lat = latitude station,
                         stn_ele = elevation station,
                         temperature_c = the (temp metar_decoded),
                         dewpoint_c = the (dewpt metar_decoded),
                         relativehumidity = rh,
                         pressure_mb = the (press metar_decoded),
                         pressuresea_mb =
                           (case press_sea_level metar_decoded of
                              Some p \<Rightarrow> Num p | None \<Rightarrow> Str ''''),
                         winddirection_deg = the (wind_dir metar_decoded),
                         windspeed_kt = the (wind_speed metar_decoded),
                         windgust_kt =
                           (case wind_gust metar_decoded of
                              Some g \<Rightarrow> Num g | None \<Rightarrow> Str ''''),
                         rawmetar = metar_raw\<rparr>))))"

section \<open>Date keys\<close>

text \<open>
  \<^verbatim>\<open>datetime.fromtimestamp(ts)\<close> followed by \<^verbatim>\<open>strftime("%Y%m%d")\<close>. The local clock is
  \<open>tz\<close> seconds ahead of UTC. \<open>civil_from_days\<close> turns a day count from 1970-01-01 into
  year, month and day of the proleptic Gregorian calendar; \<^verbatim>\<open>datetime\<close> holds the years
  1 to 9999 and raises outside them. The year is written with four digits, as Python
  does for the years from 1000 on. Time stamps are whole seconds.
\<close>

definition civil_from_days :: "int \<Rightarrow> int \<times> int \<times> int" where
  "civil_from_days days =
     (let z = days + 719468;
          era = z div 146097;
          doe = z - era * 146097;
          yoe = (doe - doe div 1460 + doe div 36524 - doe div 146096) div 365;
          doy = doe - (365 * yoe + yoe div 4 - yoe div 100);
          mp = (5 * doy + 2) div 153;
          d = doy - (153 * mp + 2) div 5 + 1;
          m = (if mp < 10 then mp + 3 else mp - 9);
          y = yoe + era * 400 + (if m \<le> 2 then 1 else 0)
      in (y, m, d))"

definition digit_char :: "int \<Rightarrow> char" where
  "digit_char n = ''0123456789'' ! nat (n mod 10)"

definition strftime_Ymd :: "int \<times> int \<times> int \<Rightarrow> string" where
  "strftime_Ymd ymd =
     (case ymd of (y, m, d) \<Rightarrow>
        [digit_char (y div 1000), digit_char (y div 100), digit_char (y div 10), digit_char y,
         digit_char (m div 10), digit_char m,
         digit_char (d div 10), digit_char d])"

definition date_key :: "int \<Rightarrow> int \<Rightarrow> error + string" where
  "date_key tz ts =
     (case civil_from_days ((ts + tz) div 86400) of (y, m, d) \<Rightarrow>
        if 1 \<le> y \<and> y \<le> 9999 then Inr (strftime_Ymd (y, m, d))
        else Inl TimestampOutOfRange)"

section \<open>The partitioned store\<close>

text \<open>
  The state of an \<^verbatim>\<open>AwcWeatherStationDataDownloader\<close> together with the files under its
  target directory: \<open>disk\<close> maps the path of a partition file to the rows it holds, and
  is \<open>None\<close> at a path where there is no file. An empty file holds no rows.
\<close>

type_synonym disk = "string \<rightharpoonup> row list"

record store =
  stations :: "string \<rightharpoonup> station"
  target_dir :: string
  data_file_path :: string
  data :: "row list"
  disk :: disk

text \<open>
  \<^verbatim>\<open>_ensure_data_file\<close>: the path \<^verbatim>\<open>target_dir / date[:4] / date[4:6] / f"{date}.csv"\<close>,
  and the file created empty when it is not there. \<open>today\<close> is the key of
  \<^verbatim>\<open>datetime.utcnow()\<close>, taken when no date (or an empty one) is given. The check by
  \<^verbatim>\<open>strptime\<close> is left out: every key that reaches it here was written by
  \<^verbatim>\<open>strftime("%Y%m%d")\<close>.
\<close>

definition data_file_for :: "string \<Rightarrow> string \<Rightarrow> string" where
  "data_file_for dir date =
     dir @ ''/'' @ slice 0 4 date @ ''/'' @ slice 4 6 date @ ''/'' @ date @ ''.csv''"

definition ensure_data_file :: "string \<Rightarrow> string \<Rightarrow> disk \<Rightarrow> string option \<Rightarrow> string \<times> disk" where
  "ensure_data_file today dir dk date_opt =
     (let date = (case date_opt of None \<Rightarrow> today | Some d \<Rightarrow> if d = [] then today else d);
          data_file_path = data_file_for dir date
      in (data_file_path,
          if dk data_file_path = None then dk(data_file_path \<mapsto> []) else dk))"

definition load_data_from_file :: "disk \<Rightarrow> string \<Rightarrow> error + row list" where
  "load_data_from_file dk file_path =
     (case dk file_path of None \<Rightarrow> Inl FileNotFoundError | Some rows \<Rightarrow> Inr rows)"

text \<open>
  \<^verbatim>\<open>_load_data\<close>: where the file is missing the code calls \<^verbatim>\<open>.touch()\<close> on the boolean
  that \<^verbatim>\<open>exists()\<close> returned, which raises \<^verbatim>\<open>AttributeError\<close>.
\<close>

definition load_data :: "store \<Rightarrow> error + row list" where
  "load_data st =
     (if disk st (data_file_path st) = None then Inl AttributeError
      else load_data_from_file (disk st) (data_file_path st))"

text \<open>\<^verbatim>\<open>__init__\<close>, on the disk \<open>dk\<close> found at start.\<close>

definition init :: "string \<Rightarrow> (string \<rightharpoonup> station) \<Rightarrow> string \<Rightarrow> disk \<Rightarrow> error + store" where
  "init today stns dir dk =
     (case ensure_data_file today dir dk None of (p, dk') \<Rightarrow>
        let st = \<lparr>stations = stns, target_dir = dir, data_file_path = p, data = [], disk = dk'\<rparr>
        in (case load_data st of Inl e \<Rightarrow> Inl e | Inr rows \<Rightarrow> Inr (st\<lparr>data := rows\<rparr>)))"

text \<open>
  \<^verbatim>\<open>_deduplicate_data\<close>. A Python dictionary keeps its keys in the order of their first
  insertion, so \<^verbatim>\<open>dedup\<close> is a list of pairs with distinct keys.
\<close>

fun dedup_rows :: "(string \<times> row) list \<Rightarrow> row list \<Rightarrow> (string \<times> row) list" where
  "dedup_rows dedup [] = dedup"
| "dedup_rows dedup (r # rows) =
     (if rawmetar r \<notin> set (map fst dedup) then dedup_rows (dedup @ [(rawmetar r, r)]) rows
      else dedup_rows dedup rows)"

definition deduplicate_data :: "row list \<Rightarrow> row list" where
  "deduplicate_data rows = map snd (dedup_rows [] rows)"

text \<open>\<^verbatim>\<open>_dump_data_in_file\<close>: the file opened with mode \<^verbatim>\<open>'w'\<close> holds the given rows only.\<close>

definition dump_data_in_file :: "disk \<Rightarrow> row list \<Rightarrow> string \<Rightarrow> disk" where
  "dump_data_in_file dk rows file_path = dk(file_path \<mapsto> rows)"

text \<open>
  The first loop of \<^verbatim>\<open>_dump_data\<close>: \<^verbatim>\<open>data_by_date\<close> is a dictionary from date key to the
  list of rows of that date, in the order in which the keys first occur.
\<close>

definition add_row :: "string \<Rightarrow> row \<Rightarrow> (string \<times> row list) list \<Rightarrow> (string \<times> row list) list" where
  "add_row date r data_by_date =
     (let dbd = (if date \<notin> set (map fst data_by_date) then data_by_date @ [(date, [])]
                 else data_by_date)
      in map (\<lambda>(k, rows). if k = date then (k, rows @ [r]) else (k, rows)) dbd)"

fun group_by_date ::
  "int \<Rightarrow> (string \<times> row list) list \<Rightarrow> row list \<Rightarrow> error + (string \<times> row list) list" where
  "group_by_date tz data_by_date [] = Inr data_by_date"
| "group_by_date tz data_by_date (r # rows) =
     (case date_key tz (timestamp r) of
        Inl e \<Rightarrow> Inl e
      | Inr date \<Rightarrow> group_by_date tz (add_row date r data_by_date) rows)"

text \<open>\<^verbatim>\<open>d[k]\<close> on a dictionary.\<close>

definition getitem :: "('k \<times> 'v) list \<Rightarrow> 'k \<Rightarrow> error + 'v" where
  "getitem d k = (case map_of d k of None \<Rightarrow> Inl KeyError | Some v \<Rightarrow> Inr v)"

text \<open>
  \<^verbatim>\<open>_dump_data\<close>. \<open>today\<close> is the key of \<^verbatim>\<open>datetime.utcnow()\<close> at the time of the call,
  which \<^verbatim>\<open>_ensure_data_file\<close> reads when it is given no date.
  \<^verbatim>\<open>sorted\<close> orders the keys as strings, by code point. Under the guard
  \<^verbatim>\<open>len(data_by_date.keys()) > 1\<close> the list \<open>dates\<close> is not empty, so \<^verbatim>\<open>dates[0]\<close> is its
  head and \<^verbatim>\<open>dates[-1]\<close> its last element.
\<close>

definition dump_data :: "string \<Rightarrow> int \<Rightarrow> store \<Rightarrow> error + store" where
  "dump_data today tz st0 =
     (let st = st0\<lparr>data := deduplicate_data (data st0)\<rparr> in
      case group_by_date tz [] (data st) of
        Inl e \<Rightarrow> Inl e
      | Inr data_by_date \<Rightarrow>
          if length data_by_date > 1 then
            (let dates = sort (map fst data_by_date);
                 previous_date = hd dates
             in case ensure_data_file today (target_dir st) (disk st) (Some previous_date) of
                  (previous_data_file_path, dk1) \<Rightarrow>
                (case load_data_from_file dk1 previous_data_file_path of
                   Inl e \<Rightarrow> Inl e
                 | Inr previous_data \<Rightarrow>
                (case getitem data_by_date previous_date of
                   Inl e \<Rightarrow> Inl e
                 | Inr previous_rows \<Rightarrow>
                     let previous_data' = deduplicate_data (previous_data @ previous_rows);
                         dk2 = dump_data_in_file dk1 previous_data' previous_data_file_path;
                         next_date = last dates
                     in case ensure_data_file today (target_dir st) dk2 (Some next_date) of
                          (next_path, dk3) \<Rightarrow>
                        (case getitem data_by_date (last dates) of
                           Inl e \<Rightarrow> Inl e
                         | Inr next_rows \<Rightarrow>
                             Inr (st\<lparr>data_file_path := next_path,
                                     data := next_rows,
                                     disk := dump_data_in_file dk3 next_rows next_path\<rparr>)))))
          else
            Inr (st\<lparr>disk := dump_data_in_file (disk st) (data st) (data_file_path st)\<rparr>))"

text \<open>
  The part of \<^verbatim>\<open>download1\<close> after the request: \<open>status_code\<close> and the texts of the
  \<^verbatim>\<open>code\<close> elements of the response are given. An exception raised while a report is
  decoded is not caught.
\<close>

fun append_reports ::
  "(string \<Rightarrow> error + metar) \<Rightarrow> int \<Rightarrow> store \<Rightarrow> string list \<Rightarrow> error + store" where
  "append_reports decoder tz st [] = Inr st"
| "append_reports decoder tz st (element # elements) =
     (case fetch_data_from_raw_metar decoder tz (stations st) element of
        Inl e \<Rightarrow> Inl e
      | Inr None \<Rightarrow> append_reports decoder tz st elements
      | Inr (Some d) \<Rightarrow> append_reports decoder tz (st\<lparr>data := data st @ [d]\<rparr>) elements)"

definition download1 ::
  "(string \<Rightarrow> error + metar) \<Rightarrow> string \<Rightarrow> int \<Rightarrow> store \<Rightarrow> nat \<Rightarrow> string list
     \<Rightarrow> error + bool \<times> store" where
  "download1 decoder today tz st status_code elements =
     (if status_code \<noteq> 200 then Inr (False, st)
      else
        (case append_reports decoder tz st elements of
           Inl e \<Rightarrow> Inl e
         | Inr st1 \<Rightarrow>
             (case dump_data today tz st1 of
                Inl e \<Rightarrow> Inl e
              | Inr st2 \<Rightarrow> Inr (True, st2))))"

section \<open>Example inputs\<close>

definition example_metar :: metar where
  "example_metar =
     \<lparr>station_id = Some ''KJFK'', time = Some 1704110400, temp = Some 20, dewpt = Some 10,
      press = Some 1013, press_sea_level = None, wind_dir = Some 270, wind_speed = Some 12,
      wind_gust = None\<rparr>"


definition example_store :: store where
  "example_store =
     \<lparr>stations = Map.empty, target_dir = ''data'',
      data_file_path = ''data/2024/01/20240101.csv'', data = [], disk = Map.empty\<rparr>"

definition example_registry :: "string list" where
  "example_registry =
     [''CD  STATION         ICAO  IATA  SYNOP   LAT     LONG   ELEV   M  N  V  U  A  C'' @ [CHR 0x0A],
      ''!   CD = 2 letter state (province) abbreviation'' @ [CHR 0x0A],
      [CHR 0x0A],
      ''AK ADAK NAS         PADK  ADK   70454  51 53N  176 39W    4   X     T          7 US'' @ [CHR 0x0A]]"

section \<open>Station rows, as the specification words them\<close>

text \<open>
  The specification calls a line a station row when it is exactly 84 characters long,
  not blank and does not start with \<open>!\<close>. \<open>station_of_row\<close> is the station that such a
  line stands for, where its latitude and longitude columns can be read.
\<close>

definition is_station_row :: "string \<Rightarrow> bool" where
  "is_station_row line \<longleftrightarrow> length line = 84 \<and> strip line \<noteq> [] \<and> take 1 line \<noteq> ''!''"

definition station_of_row :: "string \<Rightarrow> station option" where
  "station_of_row line =
     (case lat (slice 39 46 line) of
        Inl e \<Rightarrow> None
      | Inr la \<Rightarrow>
          (case lng (slice 47 54 line) of
             Inl e \<Rightarrow> None
           | Inr lo \<Rightarrow>
               Some \<lparr>state_code = slice 0 2 line, name = strip (slice 3 19 line),
                     code4 = slice 20 24 line, longitude = lo, latitude = la,
                     elevation = strip (slice 55 59 line), raw = line\<rparr>))"

section \<open>Rows of a date key\<close>

text \<open>
  The rows of a list that belong to a date key, in the order of the list; and a row
  with a given time stamp and report text, for the examples.
\<close>

definition rows_on :: "int \<Rightarrow> string \<Rightarrow> row list \<Rightarrow> row list" where
  "rows_on tz date rows = filter (\<lambda>r. date_key tz (timestamp r) = Inr date) rows"

definition example_row :: "int \<Rightarrow> string \<Rightarrow> row" where
  "example_row ts metar_raw =
     \<lparr>timestamp = ts, stn_name = ''NEW YORK/JF KENN'', stn_code = ''KJFK'',
      stn_lng = - (73 + 47 / 60), stn_lat = 40 + 38 / 60, stn_ele = ''4'',
      temperature_c = 20, dewpoint_c = 20, relativehumidity = Fin 1, pressure_mb = 1013,
      pressuresea_mb = Str '''', winddirection_deg = 270, windspeed_kt = 12,
      windgust_kt = Str '''', rawmetar = metar_raw\<rparr>"

section \<open>Example stores\<close>

text \<open>
  Stores as \<^verbatim>\<open>__init__\<close> leaves them in an empty target directory, with rows appended:
  created on 2024-01-02 with reports of 23:50 the day before and 00:10 (one of them
  twice); created on 2024-01-02 with a report of the day before only; created on
  2024-01-03 with reports of three days. Time stamps are in seconds, the local clock is
  UTC.
\<close>

definition midnight_store :: store where
  "midnight_store =
     \<lparr>stations = Map.empty, target_dir = ''data'',
      data_file_path = ''data/2024/01/20240102.csv'',
      data = [example_row 1704153000 ''KJFK 012350Z'', example_row 1704154200 ''KJFK 020010Z'',
              example_row 1704154260 ''KJFK 020010Z''],
      disk = [''data/2024/01/20240102.csv'' \<mapsto> []]\<rparr>"

definition late_store :: store where
  "late_store =
     \<lparr>stations = Map.empty, target_dir = ''data'',
      data_file_path = ''data/2024/01/20240102.csv'',
      data = [example_row 1704153000 ''KJFK 012350Z''],
      disk = [''data/2024/01/20240102.csv'' \<mapsto> []]\<rparr>"

definition three_day_store :: store where
  "three_day_store =
     \<lparr>stations = Map.empty, target_dir = ''data'',
      data_file_path = ''data/2024/01/20240103.csv'',
      data = [example_row 1704067200 ''KJFK 010000Z'', example_row 1704153600 ''KJFK 020000Z'',
              example_row 1704240000 ''KJFK 030000Z''],
      disk = [''data/2024/01/20240103.csv'' \<mapsto> []]\<rparr>"

definition three_day_duplicate_store :: store where
  "three_day_duplicate_store =
     \<lparr>stations = Map.empty, target_dir = ''data'',
      data_file_path = ''data/2024/01/20240103.csv'',
      data = [example_row 1704067200 ''KJFK 010000Z'', example_row 1704153600 ''KJFK 020000Z'',
              example_row 1704153660 ''KJFK 020000Z'', example_row 1704240000 ''KJFK 030000Z''],
      disk = [''data/2024/01/20240103.csv'' \<mapsto> []]\<rparr>"

section \<open>Properties of the decoder\<close>

subsection \<open>Humidity\<close>

text \<open>
  Results of magnitude up to \<open>3 ^ 30\<close> are far from overflow, and bounds on \<open>exp\<close>
  by powers of 2 and 3.
\<close>

lemma overflow_threshold_big: "3 ^ 30 < overflow_threshold"
  by (simp add: overflow_threshold_def)

lemma fround_finite: "\<bar>r\<bar> \<le> 3 ^ 30 \<Longrightarrow> fround r = Fin r"
  using overflow_threshold_big by (auto simp: fround_def)

lemma exp_nat_le: "exp (real n) \<le> 3 ^ n"
proof -
  have "exp (real n) = exp 1 ^ n"
    using exp_of_nat_mult [of n "1::real"] by simp
  also have "\<dots> \<le> 3 ^ n"
    by (rule power_mono) (simp_all add: exp_le)
  finally show ?thesis .
qed

lemma exp_nat_ge: "2 ^ n \<le> exp (real n)"
proof -
  have "(2::real) \<le> exp 1"
    using exp_ge_add_one_self [of "1::real"] by simp
  then have "(2::real) ^ n \<le> exp 1 ^ n"
    by (rule power_mono) simp
  also have "\<dots> = exp (real n)"
    using exp_of_nat_mult [of n "1::real"] by simp
  finally show ?thesis .
qed

lemma exp_bounds:
  fixes q :: real
  assumes "\<bar>q\<bar> \<le> real n"
  shows "1 / 3 ^ n \<le> exp q" and "exp q \<le> 3 ^ n"
proof -
  have "exp q \<le> exp (real n)" using assms by simp
  then show "exp q \<le> 3 ^ n" using exp_nat_le [of n] by linarith
  have "exp (- real n) \<le> exp q" using assms by simp
  moreover have "exp (- real n) = 1 / exp (real n)"
    by (simp add: exp_minus inverse_eq_divide)
  moreover have "1 / 3 ^ n \<le> 1 / exp (real n)"
    using exp_nat_le [of n] by (simp add: frac_le)
  ultimately show "1 / 3 ^ n \<le> exp q" by linarith
qed

lemma exp_underflow:
  fixes q :: real
  assumes "q \<le> - 1075"
  shows "exp q \<le> 1 / 2 ^ 1075"
proof -
  have "exp q \<le> exp (- real 1075)" using assms by simp
  also have "\<dots> = 1 / exp (real 1075)"
    by (simp add: exp_minus inverse_eq_divide)
  also have "\<dots> \<le> 1 / 2 ^ 1075"
    using exp_nat_ge [of 1075] by (intro frac_le) simp_all
  finally show ?thesis .
qed


text \<open>
  Between \<open>-100\<close> and \<open>100\<close> degrees the exponent lies between \<open>-13\<close> and \<open>13\<close>, so
  that nothing overflows or underflows.
\<close>

lemma exponent_bound:
  fixes t :: real
  assumes "- 100 \<le> t" and "t \<le> 100"
  shows "\<bar>17.67 * t / (t + 243.5)\<bar> \<le> real 13"
proof -
  have p: "0 < t + 243.5" using assms by simp
  have "17.67 * t / (t + 243.5) \<le> 13"
    using assms p by (simp add: pos_divide_le_eq)
  moreover have "- 13 \<le> 17.67 * t / (t + 243.5)"
    using assms p by (simp add: pos_le_divide_eq)
  ultimately have "17.67 * t / (t + 243.5) \<le> real 13 \<and> - (17.67 * t / (t + 243.5)) \<le> real 13"
    by simp
  then show ?thesis by (simp only: abs_le_iff)
qed

lemma saturation_vapor_pressure_steps:
  assumes "fl_mul (Fin 17.67) (Fin t) = Fin p" and "fl_add (Fin t) (Fin 243.5) = Fin s"
    and "s \<noteq> 0" and "fl_div (Fin p) (Fin s) = Fin q" and "np_exp (Fin q) = Fin y"
    and "fl_mul (Fin 611.2) (Fin y) = Fin z"
  shows "saturation_vapor_pressure t = Inr (Fin z)"
  unfolding saturation_vapor_pressure_def py_truediv_def assms(1,2)
  using assms(3-) by (simp del: fl_div.simps np_exp.simps fl_mul.simps)

lemma saturation_vapor_pressure_finite:
  fixes t :: real
  assumes "- 100 \<le> t" and "t \<le> 100"
  shows "saturation_vapor_pressure t = Inr (Fin (611.2 * exp (17.67 * t / (t + 243.5))))"
proof -
  let ?q = "17.67 * t / (t + 243.5)"
  have m: "fl_mul (Fin 17.67) (Fin t) = Fin (17.67 * t)"
    using assms by (simp add: fround_finite abs_le_iff)
  have a: "fl_add (Fin t) (Fin 243.5) = Fin (t + 243.5)"
    using assms by (simp add: fround_finite abs_le_iff)
  have nz: "t + 243.5 \<noteq> 0" using assms by simp
  note b = exponent_bound [OF assms]
  have "\<bar>?q\<bar> \<le> 3 ^ 30" using b by simp
  then have d: "fl_div (Fin (17.67 * t)) (Fin (t + 243.5)) = Fin ?q"
    using nz by (simp add: fround_finite)
  note e = exp_bounds [OF b]
  have "(1::real) / 2 ^ 1075 < 1 / 3 ^ 13" by simp
  with e(1) have nu: "\<not> exp ?q \<le> 1 / 2 ^ 1075" by linarith
  have "\<bar>exp ?q\<bar> \<le> 3 ^ 30" using e(2) by simp
  with nu have x: "np_exp (Fin ?q) = Fin (exp ?q)"
    by (simp add: fround_finite)
  have "\<bar>611.2 * exp ?q\<bar> \<le> 3 ^ 30" using e(2) by simp
  then have f: "fl_mul (Fin 611.2) (Fin (exp ?q)) = Fin (611.2 * exp ?q)"
    by (simp add: fround_finite)
  show ?thesis
    by (rule saturation_vapor_pressure_steps [OF m a nz d x f])
qed

lemma fround_one: "fround 1 = Fin 1"
  by (simp add: fround_finite)

lemma relative_humidity_saturated:
  assumes "saturation_vapor_pressure T = Inr (Fin x)" and "x \<noteq> 0"
  shows "relative_humidity_from_dewpoint T T = Inr (Fin 1)"
  using assms by (simp add: relative_humidity_from_dewpoint_def fround_one)

lemma relative_humidity_finite:
  fixes t d :: real
  assumes t: "- 100 \<le> t" "t \<le> 100" and d: "- 100 \<le> d" "d \<le> 100"
  shows "relative_humidity_from_dewpoint t d =
           Inr (Fin ((611.2 * exp (17.67 * d / (d + 243.5)))
                     / (611.2 * exp (17.67 * t / (t + 243.5)))))"
proof -
  let ?qt = "17.67 * t / (t + 243.5)" and ?qd = "17.67 * d / (d + 243.5)"
  note et = exp_bounds [OF exponent_bound [OF t]]
  note ed = exp_bounds [OF exponent_bound [OF d]]
  have "exp ?qd / exp ?qt \<le> 3 ^ 13 / (1 / 3 ^ 13)"
    using et(1) ed(2) by (intro frac_le) simp_all
  then have "\<bar>exp ?qd / exp ?qt\<bar> \<le> 3 ^ 30" by simp
  then have "fround ((611.2 * exp ?qd) / (611.2 * exp ?qt)) =
      Fin ((611.2 * exp ?qd) / (611.2 * exp ?qt))"
    by (intro fround_finite) simp
  then show ?thesis
    by (simp add: relative_humidity_from_dewpoint_def
        saturation_vapor_pressure_finite [OF t] saturation_vapor_pressure_finite [OF d])
qed

text \<open>
  Claim C9, amended: for every temperature and dewpoint between \<open>-100\<close> and \<open>100\<close>
  degrees, the saturation vapour pressure is \<open>611.2 * exp (17.67 * T / (T + 243.5))\<close>
  and the relative humidity is the pressure at the dewpoint divided by the pressure
  at the temperature, with nothing clamped; and for every temperature at which the
  saturation vapour pressure is a finite number other than zero, the relative
  humidity at a dewpoint equal to the temperature is 1.
\<close>

theorem relative_humidity_ratio:
  fixes t d T x :: real
  shows "(- 100 \<le> t \<and> t \<le> 100 \<and> - 100 \<le> d \<and> d \<le> 100 \<longrightarrow>
          saturation_vapor_pressure t = Inr (Fin (611.2 * exp (17.67 * t / (t + 243.5))))
          \<and> relative_humidity_from_dewpoint t d =
               Inr (Fin ((611.2 * exp (17.67 * d / (d + 243.5)))
                         / (611.2 * exp (17.67 * t / (t + 243.5)))))
          \<and> relative_humidity_from_dewpoint t t = Inr (Fin 1))
     \<and> (saturation_vapor_pressure T = Inr (Fin x) \<and> x \<noteq> 0 \<longrightarrow>
          relative_humidity_from_dewpoint T T = Inr (Fin 1))"
proof -
  have "relative_humidity_from_dewpoint t t = Inr (Fin 1)" if "- 100 \<le> t" "t \<le> 100"
    using relative_humidity_saturated [OF saturation_vapor_pressure_finite [OF that]] by simp
  with relative_humidity_saturated relative_humidity_finite saturation_vapor_pressure_finite
  show ?thesis by blast
qed

text \<open>
  Claim C9, as it stands, fails near \<open>-243.5\<close> degrees. At \<open>-243\<close> the exponent is
  \<open>-8587.62\<close>, \<^verbatim>\<open>np.exp\<close> underflows to zero, both pressures are zero and their
  quotient is NaN, not 1.
\<close>

theorem relative_humidity_nan_counterexample:
  "relative_humidity_from_dewpoint (- 243) (- 243) = Inr NaN"
proof -
  have m: "fl_mul (Fin 17.67) (Fin (- 243)) = Fin (- 4293.81)"
    by (simp add: fround_finite)
  have a: "fl_add (Fin (- 243)) (Fin 243.5) = Fin 0.5"
    by (simp add: fround_finite)
  have d: "fl_div (Fin (- 4293.81)) (Fin 0.5) = Fin (- 8587.62)"
    by (simp add: fround_finite)
  have "exp (- 8587.62 :: real) \<le> 1 / 2 ^ 1075"
    by (rule exp_underflow) simp
  then have x: "np_exp (Fin (- 8587.62)) = Fin 0" by simp
  have f: "fl_mul (Fin 611.2) (Fin 0) = Fin 0"
    by (simp add: fround_finite)
  have "saturation_vapor_pressure (- 243) = Inr (Fin 0)"
    by (rule saturation_vapor_pressure_steps [OF m a _ d x f]) simp
  then show ?thesis
    by (simp add: relative_humidity_from_dewpoint_def)
qed

text \<open>At \<open>-243.5\<close> itself the divisor of the exponent is zero and the division raises.\<close>

lemma relative_humidity_pole:
  "relative_humidity_from_dewpoint (- 243.5) (- 243.5) = Inl ZeroDivisionError"
proof -
  have "fl_add (Fin (- 243.5)) (Fin 243.5) = Fin 0"
    by (simp add: fround_finite)
  then show ?thesis
    by (simp add: relative_humidity_from_dewpoint_def saturation_vapor_pressure_def
        py_truediv_def)
qed

text \<open>
  At 20 degrees the humidity of saturated air is 1; a dewpoint above the temperature
  gives more than 1.
\<close>

theorem relative_humidity_ratio_witness:
  "relative_humidity_from_dewpoint 20 20 = Inr (Fin 1)
   \<and> (\<exists>r. relative_humidity_from_dewpoint 10 20 = Inr (Fin r) \<and> 1 < r)"
proof -
  have "(17.67 * 10 / (10 + 243.5) :: real) < 17.67 * 20 / (20 + 243.5)" by simp
  then have "exp (17.67 * 10 / (10 + 243.5) :: real) < exp (17.67 * 20 / (20 + 243.5))"
    by (simp only: exp_less_cancel_iff)
  then have "1 < (611.2 * exp (17.67 * 20 / (20 + 243.5)))
                  / (611.2 * exp (17.67 * 10 / (10 + 243.5)) :: real)"
    by simp
  with relative_humidity_ratio [of 20 20] relative_humidity_ratio [of 10 20]
  show ?thesis by simp
qed

subsection \<open>Station lookup and the validity gate\<close>

lemma append_reports_stations:
  "append_reports decoder tz st elements = Inr st' \<Longrightarrow> stations st' = stations st"
  by (induction elements arbitrary: st) (auto split: sum.splits option.splits)

lemma append_reports_append:
  "append_reports decoder tz st pre = Inr st1 \<Longrightarrow>
   append_reports decoder tz st (pre @ elements) = append_reports decoder tz st1 elements"
  by (induction pre arbitrary: st) (auto split: sum.splits option.splits)

text \<open>
  Claim C5: when the decoded station identifier is not in the registry, decoding the
  report raises \<^verbatim>\<open>KeyError\<close>; the value \<^verbatim>\<open>None\<close> is not returned, and the error leaves
  \<^verbatim>\<open>download1\<close> too, whatever reports come before (decoded without error) and after.
\<close>

theorem unknown_station_raises:
  assumes "decoder metar_raw = Inr m"
    and "station_id m = None \<or> (\<exists>sid. station_id m = Some sid \<and> stations st sid = None)"
    and "append_reports decoder tz st before = Inr st1"
  shows "fetch_data_from_raw_metar decoder tz (stations st) metar_raw = Inl KeyError
       \<and> download1 decoder today tz st 200 (before @ metar_raw # after) = Inl KeyError"
proof -
  have f: "fetch_data_from_raw_metar decoder tz (stations st) metar_raw = Inl KeyError"
    using assms(1,2) by (auto simp: fetch_data_from_raw_metar_def)
  have "stations st1 = stations st"
    using assms(3) by (rule append_reports_stations)
  with f have "append_reports decoder tz st1 (metar_raw # after) = Inl KeyError"
    by simp
  with assms(3) have "append_reports decoder tz st (before @ metar_raw # after) = Inl KeyError"
    by (simp add: append_reports_append)
  with f show ?thesis by (simp add: download1_def)
qed

theorem unknown_station_raises_witness:
  "station_id example_metar = Some ''KJFK'' \<and> stations example_store ''KJFK'' = None
   \<and> fetch_data_from_raw_metar (\<lambda>_. Inr example_metar) 0 (stations example_store)
        ''KJFK 011200Z'' = Inl KeyError
   \<and> download1 (\<lambda>_. Inr example_metar) ''20240101'' 0 example_store 200
        [''KJFK 011200Z'', ''KJFK 011300Z''] = Inl KeyError"
  using unknown_station_raises [of "\<lambda>_. Inr example_metar" "''KJFK 011200Z''" example_metar
      example_store 0 "[]" example_store "''20240101''" "[''KJFK 011300Z'']"]
  by (simp add: example_metar_def example_store_def)

text \<open>
  Claim C10: the station is looked up before the validity gate is evaluated, so a
  report whose station identifier is not in the registry raises \<^verbatim>\<open>KeyError\<close> also when
  a required field is missing.
\<close>

theorem lookup_before_gate:
  assumes "decoder metar_raw = Inr m"
    and "station_id m = Some sid" and "stns sid = None"
    and "\<not> metar_valid m"
  shows "fetch_data_from_raw_metar decoder tz stns metar_raw = Inl KeyError"
  using assms
  by (simp add: fetch_data_from_raw_metar_def)

theorem lookup_before_gate_witness:
  "\<not> metar_valid (example_metar\<lparr>temp := None\<rparr>)
   \<and> fetch_data_from_raw_metar (\<lambda>_. Inr (example_metar\<lparr>temp := None\<rparr>)) 0 Map.empty
        ''KJFK 011200Z'' = Inl KeyError"
  using lookup_before_gate [of "\<lambda>_. Inr (example_metar\<lparr>temp := None\<rparr>)" "''KJFK 011200Z''"
      "example_metar\<lparr>temp := None\<rparr>" "''KJFK''" Map.empty 0]
  by (simp add: example_metar_def metar_valid_def)








section \<open>Properties of the station registry\<close>

subsection \<open>Coordinates\<close>

lemma digit_not_space: "is_digit c \<Longrightarrow> \<not> is_space c"
  by (auto simp: is_digit_def is_space_def)

lemma digit_not_sign: "is_digit c \<Longrightarrow> c \<noteq> CHR ''-'' \<and> c \<noteq> CHR ''+'' \<and> c \<noteq> CHR ''_''"
  by (auto simp: is_digit_def)

lemma split_acc_token:
  "\<forall>c\<in>set w. \<not> is_space c \<Longrightarrow> split_acc cur (w @ rest) = split_acc (cur @ w) rest"
  by (induction w arbitrary: cur) auto

lemma strip_digits: "\<forall>c\<in>set ds. is_digit c \<Longrightarrow> strip ds = ds"
proof -
  assume d: "\<forall>c\<in>set ds. is_digit c"
  have a: "dropWhile is_space xs = xs" if "\<forall>c\<in>set xs. is_digit c" for xs
    using that by (cases xs) (auto dest: digit_not_space)
  have "dropWhile is_space (rev ds) = rev ds" using d by (intro a) simp
  with a [OF d] show ?thesis by (simp add: strip_def)
qed

lemma int_body_ok_digits: "ds \<noteq> [] \<Longrightarrow> \<forall>c\<in>set ds. is_digit c \<Longrightarrow> int_body_ok ds"
  by (induction ds rule: int_body_ok.induct) (auto dest: digit_not_sign)

lemma py_int_digits:
  assumes "ds \<noteq> []" and "\<forall>c\<in>set ds. is_digit c"
  shows "py_int ds = Inr (int (digits_val ds))"
proof -
  have "is_digit (hd ds)" using assms by (cases ds) auto
  then have "hd ds \<noteq> CHR ''-''" "hd ds \<noteq> CHR ''+''" by (auto dest: digit_not_sign)
  moreover have "filter is_digit ds = ds" using assms(2) by (simp add: filter_id_conv)
  ultimately show ?thesis
    using assms by (simp add: py_int_def strip_digits int_body_ok_digits Let_def)
qed

lemma split_ws_coordinate:
  assumes "ds \<noteq> []" and "\<forall>c\<in>set ds. is_digit c" and "\<forall>c\<in>set ms. is_digit c" and "\<not> is_space h"
  shows "split_ws (ds @ '' '' @ ms @ [h]) = [ds, ms @ [h]]"
proof -
  have 1: "\<forall>c\<in>set ds. \<not> is_space c" using assms(2) by (auto dest: digit_not_space)
  have 2: "\<forall>c\<in>set (ms @ [h]). \<not> is_space c" using assms(3,4) by (auto dest: digit_not_space)
  have "split_acc [] (ds @ ('' '' @ ms @ [h])) = split_acc ([] @ ds) ('' '' @ ms @ [h])"
    using 1 by (rule split_acc_token)
  also have "\<dots> = ds # split_acc [] ((ms @ [h]) @ [])"
    using assms(1) by (simp add: is_space_def)
  also have "split_acc [] ((ms @ [h]) @ []) = split_acc ([] @ (ms @ [h])) []"
    using 2 by (rule split_acc_token)
  finally show ?thesis by (simp add: split_ws_def)
qed

text \<open>
  Claim C8: on a coordinate made of a degree number, one space, a minute number and a
  hemisphere letter, \<^verbatim>\<open>_lat\<close> and \<^verbatim>\<open>_lng\<close> return degrees plus minutes over 60, negated
  exactly when the letter is \<open>S\<close> (latitude) or \<open>W\<close> (longitude). \<open>digits_val\<close> is the
  number that a string of decimal digits writes.
\<close>

theorem coordinate_parsers:
  assumes "degrees \<noteq> []" and "\<forall>c\<in>set degrees. is_digit c"
    and "minutes \<noteq> []" and "\<forall>c\<in>set minutes. is_digit c"
    and "hemi \<in> set ''NSEW''"
  shows "lat (degrees @ '' '' @ minutes @ [hemi]) =
           Inr ((if hemi = CHR ''S'' then - 1 else 1)
                * (real (digits_val degrees) + real (digits_val minutes) / 60))
       \<and> lng (degrees @ '' '' @ minutes @ [hemi]) =
           Inr ((if hemi = CHR ''W'' then - 1 else 1)
                * (real (digits_val degrees) + real (digits_val minutes) / 60))"
proof -
  have h: "\<not> is_space hemi" using assms(5) by (auto simp: is_space_def)
  have s: "split_ws (degrees @ '' '' @ minutes @ [hemi]) = [degrees, minutes @ [hemi]]"
    using assms(1,2,4) h by (rule split_ws_coordinate)
  have d: "py_int degrees = Inr (int (digits_val degrees))"
    using assms(1,2) by (rule py_int_digits)
  have m: "py_int minutes = Inr (int (digits_val minutes))"
    using assms(3,4) by (rule py_int_digits)
  have l: "last (degrees @ '' '' @ minutes @ [hemi]) = hemi" by simp
  show ?thesis
    unfolding lat_def lng_def s l by (simp add: d m Let_def)
qed

text \<open>The two coordinates of the specification, and one of each negated hemisphere.\<close>

theorem coordinate_parsers_witness:
  "lat ''40 26N'' = Inr (40 + 26 / 60) \<and> lng ''73 59W'' = Inr (- (73 + 59 / 60))
   \<and> \<bar>40 + 26 / 60 - 40.4333\<bar> < (0.0001::real) \<and> \<bar>- (73 + 59 / 60) - (- 73.9833)\<bar> < (0.0001::real)
   \<and> lat ''33 57S'' = Inr (- (33 + 57 / 60)) \<and> lng ''151 11E'' = Inr (151 + 11 / 60)"
  using coordinate_parsers [of "''40''" "''26''" "CHR ''N''"]
    coordinate_parsers [of "''73''" "''59''" "CHR ''W''"]
    coordinate_parsers [of "''33''" "''57''" "CHR ''S''"]
    coordinate_parsers [of "''151''" "''11''" "CHR ''E''"]
  by (simp add: is_digit_def digits_val_def digit_val_def)

subsection \<open>Which lines become stations\<close>

lemmas parse_eval = strip_def is_space_def is_digit_def slice_def split_ws_def py_int_def
  digits_val_def digit_val_def lat_def lng_def

lemma py_int_error: "py_int s = Inl e \<Longrightarrow> e = ValueError"
  by (auto simp: py_int_def Let_def split: if_splits)

lemma lat_error: "lat s = Inl e \<Longrightarrow> e = ValueError"
  by (auto simp: lat_def Let_def split: list.splits sum.splits dest: py_int_error)

lemma lng_error: "lng s = Inl e \<Longrightarrow> e = ValueError"
  by (auto simp: lng_def Let_def split: list.splits sum.splits dest: py_int_error)

text \<open>One turn of the loop of \<^verbatim>\<open>fetch_stations\<close>, in terms of station rows.\<close>

lemma fetch_lines_Cons:
  "fetch_lines m (line # lines) =
     (if \<not> is_station_row line then fetch_lines m lines
      else case station_of_row line of
             None \<Rightarrow> Inl ValueError
           | Some s \<Rightarrow> fetch_lines (m(slice 20 24 line \<mapsto> s)) lines)"
proof (cases "is_station_row line")
  case False
  then show ?thesis by (auto simp: is_station_row_def)
next
  case True
  then have g: "strip line \<noteq> []" "take 1 line \<noteq> ''!''" "length line = 84"
    by (simp_all add: is_station_row_def)
  show ?thesis
  proof (cases "lat (slice 39 46 line)")
    case (Inl e)
    with True g lat_error [OF Inl] show ?thesis by (simp add: station_of_row_def)
  next
    case la: (Inr la)
    show ?thesis
    proof (cases "lng (slice 47 54 line)")
      case (Inl e)
      with True g la lng_error [OF Inl] show ?thesis by (simp add: station_of_row_def)
    next
      case (Inr lo)
      with True g la show ?thesis by (simp add: station_of_row_def)
    qed
  qed
qed

lemma fetch_lines_skip:
  "fetch_lines m (filter is_station_row lines) = fetch_lines m lines"
  by (induction lines arbitrary: m)
     (simp_all add: fetch_lines_Cons del: fetch_lines.simps(2) split: option.splits)

lemma fetch_lines_error:
  "fetch_lines m lines = Inl e \<Longrightarrow>
     e = ValueError \<and> (\<exists>l\<in>set lines. is_station_row l \<and> station_of_row l = None)"
  by (induction lines arbitrary: m)
     (auto simp: fetch_lines_Cons simp del: fetch_lines.simps(2) split: option.splits if_splits)

lemma fetch_lines_result:
  "fetch_lines m lines = Inr reg \<Longrightarrow>
     (\<forall>l\<in>set lines. is_station_row l \<longrightarrow> station_of_row l \<noteq> None) \<and>
     reg code = (case rev (filter (\<lambda>l. is_station_row l \<and> slice 20 24 l = code) lines) of
                   [] \<Rightarrow> m code | l # _ \<Rightarrow> station_of_row l)"
proof (induction lines arbitrary: m)
  case Nil
  then show ?case by simp
next
  case (Cons line lines)
  show ?case
  proof (cases "is_station_row line")
    case False
    with Cons.prems have "fetch_lines m lines = Inr reg"
      by (simp add: fetch_lines_Cons del: fetch_lines.simps(2))
    from Cons.IH [OF this] False show ?thesis by simp
  next
    case True
    with Cons.prems obtain s where s: "station_of_row line = Some s"
      and r: "fetch_lines (m(slice 20 24 line \<mapsto> s)) lines = Inr reg"
      by (auto simp: fetch_lines_Cons simp del: fetch_lines.simps(2) split: option.splits)
    from Cons.IH [OF r] True s show ?thesis
      by (auto split: list.splits)
  qed
qed

text \<open>
  Claim C7, as it stands, fails on a line of 84 characters that is not blank, does not
  start with \<open>!\<close> and has no coordinates in its columns: it is not added to a mapping,
  the parser raises \<^verbatim>\<open>ValueError\<close>.
\<close>

theorem fetch_stations_malformed_row_counterexample:
  "length (replicate 83 (CHR ''X'') @ [CHR 0x0A]) = 84
   \<and> strip (replicate 83 (CHR ''X'') @ [CHR 0x0A]) \<noteq> []
   \<and> take 1 (replicate 83 (CHR ''X'') @ [CHR 0x0A]) \<noteq> ''!''
   \<and> fetch_stations (Some [replicate 83 (CHR ''X'') @ [CHR 0x0A]]) = Inl ValueError"
  by (simp add: fetch_stations_def strip_def is_space_def lat_def slice_def split_ws_def
      eval_nat_numeral)

text \<open>
  Claim C7, amended: every line that is not a station row (84 characters, not blank,
  not starting with \<open>!\<close>) is skipped without an error and without effect on the result.
  The parser raises, and then \<^verbatim>\<open>ValueError\<close>, exactly when the latitude or longitude
  columns of some station row cannot be read. Otherwise the mapping it returns has an
  entry exactly for the codes in columns 20 to 23 of the station rows, and the entry of
  a code is the station of the last station row with that code.
\<close>

theorem fetch_stations_rows:
  "fetch_stations (Some lines) = fetch_stations (Some (filter is_station_row lines))
   \<and> (case fetch_stations (Some lines) of
        Inl e \<Rightarrow> e = ValueError \<and> (\<exists>l\<in>set lines. is_station_row l \<and> station_of_row l = None)
      | Inr reg \<Rightarrow>
          (\<forall>l\<in>set lines. is_station_row l \<longrightarrow> station_of_row l \<noteq> None)
          \<and> (\<forall>code. reg code =
                (case rev (filter (\<lambda>l. is_station_row l \<and> slice 20 24 l = code) lines) of
                   [] \<Rightarrow> None | l # _ \<Rightarrow> station_of_row l)))"
proof (cases "fetch_lines Map.empty lines")
  case (Inl e)
  with fetch_lines_error [OF Inl] show ?thesis
    by (simp add: fetch_stations_def fetch_lines_skip)
next
  case (Inr reg)
  with fetch_lines_result [OF Inr] show ?thesis
    by (simp add: fetch_stations_def fetch_lines_skip)
qed

text \<open>
  A header line, a comment line, a blank line and one station line: only the last is
  a station row, and the mapping has the one entry \<open>PADK\<close>.
\<close>

theorem fetch_stations_rows_witness:
  "map is_station_row example_registry = [False, False, False, True]
   \<and> (\<exists>reg. fetch_stations (Some example_registry) = Inr reg \<and> dom reg = {''PADK''}
         \<and> map_option name (reg ''PADK'') = Some ''ADAK NAS''
         \<and> map_option latitude (reg ''PADK'') = Some (51 + 53 / 60)
         \<and> map_option longitude (reg ''PADK'') = Some (- (176 + 39 / 60))
         \<and> map_option elevation (reg ''PADK'') = Some ''4'')"
proof -
  have rows: "map is_station_row example_registry = [False, False, False, True]"
    by (simp add: example_registry_def is_station_row_def strip_def is_space_def)
  then have f: "filter is_station_row example_registry = [example_registry ! 3]"
    by (simp add: example_registry_def)
  have "\<exists>reg. fetch_stations (Some [example_registry ! 3]) = Inr reg \<and> dom reg = {''PADK''}
         \<and> map_option name (reg ''PADK'') = Some ''ADAK NAS''
         \<and> map_option latitude (reg ''PADK'') = Some (51 + 53 / 60)
         \<and> map_option longitude (reg ''PADK'') = Some (- (176 + 39 / 60))
         \<and> map_option elevation (reg ''PADK'') = Some ''4''"
    by (simp add: example_registry_def fetch_stations_def parse_eval)
  with fetch_stations_rows [of example_registry] f rows show ?thesis
    by simp
qed

section \<open>Properties of the partitioned store\<close>

subsection \<open>Deduplication\<close>

lemma dedup_rows_keys:
  "\<forall>x\<in>set acc. rawmetar (snd x) = fst x \<Longrightarrow>
   \<forall>x\<in>set (dedup_rows acc rows). rawmetar (snd x) = fst x"
proof (induction rows arbitrary: acc)
  case Nil
  then show ?case by simp
next
  case (Cons r rows)
  show ?case
  proof (cases "rawmetar r \<in> set (map fst acc)")
    case True
    with Cons.IH [OF Cons.prems] show ?thesis by simp
  next
    case False
    have "\<forall>x\<in>set (acc @ [(rawmetar r, r)]). rawmetar (snd x) = fst x"
      using Cons.prems by simp
    from Cons.IH [OF this] False show ?thesis by simp
  qed
qed

lemma dedup_rows_distinct:
  "distinct (map fst acc) \<Longrightarrow> distinct (map fst (dedup_rows acc rows))"
  by (induction rows arbitrary: acc) auto

lemma deduplicate_data_distinct: "distinct (map rawmetar (deduplicate_data rows))"
proof -
  have "map fst (dedup_rows [] rows) = map rawmetar (map snd (dedup_rows [] rows))"
    using dedup_rows_keys [of "[]" rows] by simp
  with dedup_rows_distinct [of "[]" rows] show ?thesis
    by (simp add: deduplicate_data_def)
qed

lemma dedup_rows_id:
  "distinct (map fst acc @ map rawmetar rows) \<Longrightarrow>
   map snd (dedup_rows acc rows) = map snd acc @ rows"
  by (induction rows arbitrary: acc) auto

lemma deduplicate_data_id: "distinct (map rawmetar rows) \<Longrightarrow> deduplicate_data rows = rows"
  using dedup_rows_id [of "[]" rows] by (simp add: deduplicate_data_def)

lemma deduplicate_data_idem: "deduplicate_data (deduplicate_data rows) = deduplicate_data rows"
  by (rule deduplicate_data_id) (rule deduplicate_data_distinct)

lemma dedup_rows_first:
  "\<forall>x\<in>set acc. rawmetar (snd x) = fst x \<Longrightarrow>
   filter (\<lambda>r. rawmetar r = k) (map snd (dedup_rows acc rows)) =
     (if k \<in> set (map fst acc) then filter (\<lambda>r. rawmetar r = k) (map snd acc)
      else (case find (\<lambda>r. rawmetar r = k) rows of None \<Rightarrow> [] | Some r \<Rightarrow> [r]))"
proof (induction rows arbitrary: acc)
  case Nil
  have "filter (\<lambda>r. rawmetar r = k) (map snd acc) = []" if "k \<notin> set (map fst acc)"
    using that Nil by (auto simp: filter_empty_conv)
  then show ?case by simp
next
  case (Cons r rows)
  show ?case
  proof (cases "rawmetar r \<in> set (map fst acc)")
    case True
    with Cons.IH [OF Cons.prems] show ?thesis by auto
  next
    case False
    have p: "\<forall>x\<in>set (acc @ [(rawmetar r, r)]). rawmetar (snd x) = fst x"
      using Cons.prems by simp
    have e: "filter (\<lambda>r. rawmetar r = k) (map snd acc) = []" if "k \<notin> set (map fst acc)"
      using that Cons.prems by (auto simp: filter_empty_conv)
    from Cons.IH [OF p] False e show ?thesis by auto
  qed
qed

text \<open>
  Of the rows with one report text, \<^verbatim>\<open>_deduplicate_data\<close> keeps the first of the list
  and no other.
\<close>

lemma deduplicate_data_first:
  "filter (\<lambda>r. rawmetar r = k) (deduplicate_data rows) =
     (case find (\<lambda>r. rawmetar r = k) rows of None \<Rightarrow> [] | Some r \<Rightarrow> [r])"
  using dedup_rows_first [of "[]" k rows] by (simp add: deduplicate_data_def)

lemma dedup_rows_subset:
  "set (map snd (dedup_rows acc rows)) \<subseteq> set (map snd acc) \<union> set rows"
proof (induction rows arbitrary: acc)
  case Nil
  then show ?case by simp
next
  case (Cons r rows)
  from Cons.IH [of acc] Cons.IH [of "acc @ [(rawmetar r, r)]"] show ?case
    by auto
qed

lemma deduplicate_data_subset: "set (deduplicate_data rows) \<subseteq> set rows"
  using dedup_rows_subset [of "[]" rows] by (simp add: deduplicate_data_def)

subsection \<open>Grouping by date key\<close>

text \<open>
  A row built by \<^verbatim>\<open>_fetch_data_from_raw_metar\<close> carries the time stamp \<open>time - tz\<close>; its
  date key is the calendar day of the report's own time, whatever the local offset.
\<close>

lemma date_key_of_naive_time: "date_key tz (t - tz) = date_key 0 t"
  by (simp add: date_key_def)

lemma add_row_keys:
  "map fst (add_row d r acc) = (if d \<in> set (map fst acc) then map fst acc else map fst acc @ [d])"
  by (auto simp: add_row_def Let_def case_prod_beta)

lemma map_of_append_row:
  "map_of (map (\<lambda>(k, rows). if k = d then (k, rows @ [r]) else (k, rows)) dbd) d' =
     (if d' = d then map_option (\<lambda>rows. rows @ [r]) (map_of dbd d) else map_of dbd d')"
  by (induction dbd) auto

lemma add_row_map_of:
  "map_of (add_row d r acc) d' =
     (if d' = d then Some ((case map_of acc d of None \<Rightarrow> [] | Some rs \<Rightarrow> rs) @ [r])
      else map_of acc d')"
proof (cases "d \<in> set (map fst acc)")
  case True
  then obtain rs where "map_of acc d = Some rs"
    by (metis map_of_eq_None_iff not_Some_eq set_map)
  with True show ?thesis by (simp add: add_row_def map_of_append_row)
next
  case False
  then have "map_of acc d = None" by (simp add: map_of_eq_None_iff)
  with False show ?thesis
    by (simp add: add_row_def map_of_append_row map_add_def split: option.splits)
qed

text \<open>
  What the first loop of \<^verbatim>\<open>_dump_data\<close> leaves in \<^verbatim>\<open>data_by_date\<close>: the keys are the date
  keys that occur, each once, and a key holds the rows of that date in their order.
\<close>

lemma group_by_date_result:
  "group_by_date tz acc rows = Inr gs \<Longrightarrow> distinct (map fst acc) \<Longrightarrow>
     distinct (map fst gs)
     \<and> set (map fst gs) = set (map fst acc) \<union> {d. rows_on tz d rows \<noteq> []}
     \<and> (\<forall>r\<in>set rows. \<exists>d. date_key tz (timestamp r) = Inr d)
     \<and> (\<forall>d. map_of gs d =
          (case map_of acc d of
             None \<Rightarrow> if rows_on tz d rows = [] then None else Some (rows_on tz d rows)
           | Some rs \<Rightarrow> Some (rs @ rows_on tz d rows)))"
proof (induction rows arbitrary: acc)
  case Nil
  then show ?case by (auto simp: rows_on_def split: option.splits)
next
  case (Cons r rows)
  from Cons.prems(1) obtain date where date: "date_key tz (timestamp r) = Inr date"
    and g: "group_by_date tz (add_row date r acc) rows = Inr gs"
    by (auto split: sum.splits)
  have dist: "distinct (map fst (add_row date r acc))"
    using Cons.prems(2) by (simp add: add_row_keys)
  note ih = Cons.IH [OF g dist]
  have k: "set (map fst (add_row date r acc)) = insert date (set (map fst acc))"
    by (auto simp: add_row_keys)
  have on: "rows_on tz d (r # rows) = (if d = date then r # rows_on tz d rows else rows_on tz d rows)"
    for d
    using date by (auto simp: rows_on_def)
  have 1: "distinct (map fst gs)" using ih by blast
  have 2: "set (map fst gs) = set (map fst acc) \<union> {d. rows_on tz d (r # rows) \<noteq> []}"
  proof -
    have "set (map fst gs) = insert date (set (map fst acc)) \<union> {d. rows_on tz d rows \<noteq> []}"
      using ih k by simp
    also have "\<dots> = set (map fst acc) \<union> {d. rows_on tz d (r # rows) \<noteq> []}"
      by (auto simp: on)
    finally show ?thesis .
  qed
  have 3: "\<forall>x\<in>set (r # rows). \<exists>d. date_key tz (timestamp x) = Inr d"
    using ih date by simp
  have 4: "map_of gs d =
          (case map_of acc d of
             None \<Rightarrow> if rows_on tz d (r # rows) = [] then None else Some (rows_on tz d (r # rows))
           | Some rs \<Rightarrow> Some (rs @ rows_on tz d (r # rows)))" for d
  proof -
    have "map_of gs d =
          (case map_of (add_row date r acc) d of
             None \<Rightarrow> if rows_on tz d rows = [] then None else Some (rows_on tz d rows)
           | Some rs \<Rightarrow> Some (rs @ rows_on tz d rows))"
      using ih by blast
    then show ?thesis
      by (simp add: add_row_map_of on split: option.splits)
  qed
  from 1 2 3 4 show ?case by blast
qed

lemma group_by_date_total:
  "\<forall>r\<in>set rows. \<exists>d. date_key tz (timestamp r) = Inr d \<Longrightarrow>
   \<exists>gs. group_by_date tz acc rows = Inr gs"
  by (induction rows arbitrary: acc) auto

lemma rows_on_date: "r \<in> set (rows_on tz d rows) \<Longrightarrow> date_key tz (timestamp r) = Inr d"
  by (simp add: rows_on_def)

lemma group_one_date:
  assumes "\<forall>r\<in>set rows. date_key tz (timestamp r) = Inr d"
  shows "\<exists>gs. group_by_date tz [] rows = Inr gs \<and> length gs \<le> 1"
proof -
  from assms have "\<forall>r\<in>set rows. \<exists>d. date_key tz (timestamp r) = Inr d" by blast
  then obtain gs where g: "group_by_date tz [] rows = Inr gs"
    using group_by_date_total by blast
  from group_by_date_result [OF g]
  have dist: "distinct (map fst gs)" and keys: "set (map fst gs) = {k. rows_on tz k rows \<noteq> []}"
    by auto
  have "{k. rows_on tz k rows \<noteq> []} \<subseteq> {d}"
    using assms by (auto simp: rows_on_def filter_empty_conv)
  then have "card (set (map fst gs)) \<le> 1"
    unfolding keys by (metis card_mono finite.emptyI finite.insertI card_1_singleton_iff
        is_singletonI is_singleton_altdef)
  moreover have "card (set (map fst gs)) = length (map fst gs)"
    using dist by (rule distinct_card)
  ultimately have "length gs \<le> 1" by simp
  with g show ?thesis by blast
qed

lemma date_key_nonempty: "date_key tz ts = Inr d \<Longrightarrow> d \<noteq> []"
  by (auto simp: date_key_def strftime_Ymd_def split: prod.splits if_splits)

lemma group_key_nonempty:
  assumes "group_by_date tz [] rows = Inr gs" and "d \<in> set (map fst gs)"
  shows "d \<noteq> []"
proof -
  from group_by_date_result [OF assms(1)] assms(2)
  have "rows_on tz d rows \<noteq> []" by auto
  then obtain r where "r \<in> set (rows_on tz d rows)" by (cases "rows_on tz d rows") auto
  then have "date_key tz (timestamp r) = Inr d" by (rule rows_on_date)
  then show ?thesis by (rule date_key_nonempty)
qed

lemma getitem_group:
  assumes "group_by_date tz [] rows = Inr gs" and "d \<in> set (map fst gs)"
  shows "getitem gs d = Inr (rows_on tz d rows)"
proof -
  from group_by_date_result [OF assms(1)] assms(2)
  have "rows_on tz d rows \<noteq> []" and "map_of gs d = Some (rows_on tz d rows)"
    by auto
  then show ?thesis by (simp add: getitem_def)
qed

subsection \<open>Paths and sorted keys\<close>

lemma data_file_for_inj:
  assumes "data_file_for dir d = data_file_for dir d'"
  shows "d = d'"
proof -
  let ?pre = "\<lambda>d::string. ''/'' @ slice 0 4 d @ ''/'' @ slice 4 6 d @ ''/''"
  have e: "?pre d @ (d @ ''.csv'') = ?pre d' @ (d' @ ''.csv'')"
    using assms by (simp add: data_file_for_def)
  then have "length (?pre d @ (d @ ''.csv'')) = length (?pre d' @ (d' @ ''.csv''))"
    by (rule arg_cong)
  then have "length d = length d'"
    by (simp add: slice_def)
  then have "length (d @ ''.csv'') = length (d' @ ''.csv'')" by simp
  with e have "d @ ''.csv'' = d' @ ''.csv''"
    by (metis append_eq_append_conv)
  then show ?thesis by simp
qed

lemma hd_sort_neq_last:
  fixes ks :: "string list"
  assumes "distinct ks" and "1 < length ks"
  shows "hd (sort ks) \<noteq> last (sort ks)"
proof -
  let ?s = "sort ks"
  have d: "distinct ?s" using assms(1) by simp
  have n: "1 < length ?s" using assms(2) by simp
  have "length ?s \<noteq> 0" using assms(2) by auto
  then have ne: "?s \<noteq> []" by (metis list.size(3))
  have "hd ?s = ?s ! 0" "last ?s = ?s ! (length ?s - 1)"
    using ne by (rule hd_conv_nth, rule last_conv_nth)
  moreover have "(?s ! 0 = ?s ! (length ?s - 1)) = (0 = length ?s - 1)"
    using d n by (intro nth_eq_iff_index_eq) auto
  then have "?s ! 0 \<noteq> ?s ! (length ?s - 1)"
    using n by auto
  ultimately show ?thesis by simp
qed

subsection \<open>What a flush writes\<close>

lemma dump_data_error:
  "group_by_date tz [] (deduplicate_data (data st)) = Inl e \<Longrightarrow> dump_data today tz st = Inl e"
  by (simp add: dump_data_def)

lemma dump_data_single:
  assumes "group_by_date tz [] (deduplicate_data (data st)) = Inr gs" and "length gs \<le> 1"
  shows "dump_data today tz st =
           Inr (st\<lparr>data := deduplicate_data (data st),
                   disk := (disk st)(data_file_path st \<mapsto> deduplicate_data (data st))\<rparr>)"
  using assms by (simp add: dump_data_def dump_data_in_file_def)

lemma dump_data_multi:
  assumes g: "group_by_date tz [] (deduplicate_data (data st)) = Inr gs" and l: "1 < length gs"
  shows "dump_data today tz st =
           Inr (st\<lparr>data_file_path := data_file_for (target_dir st) (last (sort (map fst gs))),
                   data := rows_on tz (last (sort (map fst gs))) (deduplicate_data (data st)),
                   disk := (disk st)
                     (data_file_for (target_dir st) (hd (sort (map fst gs))) \<mapsto>
                        deduplicate_data
                          ((case disk st (data_file_for (target_dir st) (hd (sort (map fst gs)))) of
                              None \<Rightarrow> [] | Some rows \<Rightarrow> rows)
                           @ rows_on tz (hd (sort (map fst gs))) (deduplicate_data (data st))),
                      data_file_for (target_dir st) (last (sort (map fst gs))) \<mapsto>
                        rows_on tz (last (sort (map fst gs))) (deduplicate_data (data st)))\<rparr>)"
proof -
  let ?dates = "sort (map fst gs)"
  have ne: "?dates \<noteq> []" using l by (cases gs) auto
  have "hd ?dates \<in> set ?dates" using ne by (rule hd_in_set)
  then have h: "hd ?dates \<in> set (map fst gs)" by simp
  have "last ?dates \<in> set ?dates" using ne by (rule last_in_set)
  then have t: "last ?dates \<in> set (map fst gs)" by simp
  note g0 = getitem_group [OF g h]
  note g1 = getitem_group [OF g t]
  note n0 = group_key_nonempty [OF g h]
  note n1 = group_key_nonempty [OF g t]
  show ?thesis
    using g l g0 g1 n0 n1
    by (cases "disk st (data_file_for (target_dir st) (hd ?dates))")
       (simp_all add: dump_data_def Let_def ensure_data_file_def load_data_from_file_def
          dump_data_in_file_def)
qed

subsection \<open>Flushing twice\<close>

text \<open>
  Claim C6: a flush that completes leaves the store in a state that a second flush,
  with nothing appended in between, does not change: the same partition files with the
  same rows, the same active partition and the same working set.
\<close>

theorem dump_data_idempotent:
  assumes "dump_data today tz st = Inr st'"
  shows "dump_data today' tz st' = Inr st'"
proof -
  let ?dd = "deduplicate_data (data st)"
  obtain gs where g: "group_by_date tz [] ?dd = Inr gs"
    using assms by (cases "group_by_date tz [] ?dd") (simp_all add: dump_data_error)
  have dd: "distinct (map rawmetar ?dd)" by (rule deduplicate_data_distinct)
  show ?thesis
  proof (cases "1 < length gs")
    case False
    then have l: "length gs \<le> 1" by simp
    have st': "st' = st\<lparr>data := ?dd, disk := (disk st)(data_file_path st \<mapsto> ?dd)\<rparr>"
      using assms dump_data_single [OF g l] by simp
    have i: "deduplicate_data (data st') = ?dd"
      by (simp add: st' deduplicate_data_idem)
    have "group_by_date tz [] (deduplicate_data (data st')) = Inr gs"
      using g i by simp
    from dump_data_single [OF this l, where today = today'] show ?thesis
      by (simp add: i) (simp add: st')
  next
    case True
    let ?d1 = "last (sort (map fst gs))"
    note m = dump_data_multi [OF g True]
    have d: "data st' = rows_on tz ?d1 ?dd"
      and p: "disk st' (data_file_path st') = Some (rows_on tz ?d1 ?dd)"
      using assms m by auto
    have "distinct (map rawmetar (rows_on tz ?d1 ?dd))"
      using dd by (simp add: rows_on_def distinct_map_filter)
    then have i: "deduplicate_data (data st') = data st'"
      by (simp add: d deduplicate_data_id)
    have "\<forall>r\<in>set (data st'). date_key tz (timestamp r) = Inr ?d1"
      by (simp add: d rows_on_date)
    from group_one_date [OF this] obtain gs'
      where g': "group_by_date tz [] (deduplicate_data (data st')) = Inr gs'"
        and l': "length gs' \<le> 1"
      using i by auto
    have "(disk st')(data_file_path st' \<mapsto> data st') = disk st'"
      using p d by (simp add: fun_upd_idem)
    with dump_data_single [OF g' l', where today = today'] i show ?thesis by simp
  qed
qed

subsection \<open>The example stores\<close>

lemma example_row_sel [simp]:
  "timestamp (example_row ts m) = ts" "rawmetar (example_row ts m) = m"
  by (simp_all add: example_row_def)

lemma example_dates:
  "date_key 0 1704067200 = Inr ''20240101''"
  "date_key 0 1704153000 = Inr ''20240101''"
  "date_key 0 1704153600 = Inr ''20240102''"
  "date_key 0 1704153660 = Inr ''20240102''"
  "date_key 0 1704154200 = Inr ''20240102''"
  "date_key 0 1704154260 = Inr ''20240102''"
  "date_key 0 1704240000 = Inr ''20240103''"
  by code_simp+

lemma init_example:
  "init ''20240102'' Map.empty ''data'' Map.empty =
     Inr (midnight_store\<lparr>data := []\<rparr>)"
  by (simp add: init_def ensure_data_file_def load_data_def load_data_from_file_def
      data_file_for_def slice_def midnight_store_def Let_def)

lemma midnight_dedup:
  "deduplicate_data (data midnight_store) =
     [example_row 1704153000 ''KJFK 012350Z'', example_row 1704154200 ''KJFK 020010Z'']"
  by (simp add: midnight_store_def deduplicate_data_def)

lemma midnight_group:
  "group_by_date 0 [] (deduplicate_data (data midnight_store)) =
     Inr [(''20240101'', [example_row 1704153000 ''KJFK 012350Z'']),
          (''20240102'', [example_row 1704154200 ''KJFK 020010Z''])]"
  by (simp add: midnight_dedup example_dates add_row_def)

lemma midnight_dump:
  "dump_data ''20240102'' 0 midnight_store =
     Inr (midnight_store
       \<lparr>data_file_path := ''data/2024/01/20240102.csv'',
        data := [example_row 1704154200 ''KJFK 020010Z''],
        disk := [''data/2024/01/20240101.csv'' \<mapsto> [example_row 1704153000 ''KJFK 012350Z''],
                 ''data/2024/01/20240102.csv'' \<mapsto> [example_row 1704154200 ''KJFK 020010Z'']]\<rparr>)"
proof -
  have s: "sort (map fst [(''20240101'', [example_row 1704153000 ''KJFK 012350Z'']),
          (''20240102'', [example_row 1704154200 ''KJFK 020010Z''])]) = [''20240101'', ''20240102'']"
    by simp
  have t: "target_dir midnight_store = ''data''" "disk midnight_store = [''data/2024/01/20240102.csv'' \<mapsto> []]"
    by (simp_all add: midnight_store_def)
  have r: "rows_on 0 ''20240101'' (deduplicate_data (data midnight_store)) = [example_row 1704153000 ''KJFK 012350Z'']"
     "rows_on 0 ''20240102'' (deduplicate_data (data midnight_store)) = [example_row 1704154200 ''KJFK 020010Z'']"
    by (simp_all add: midnight_dedup rows_on_def example_dates)
  have p: "data_file_for ''data'' ''20240101'' = ''data/2024/01/20240101.csv''"
     "data_file_for ''data'' ''20240102'' = ''data/2024/01/20240102.csv''"
    by (simp_all add: data_file_for_def slice_def)
  have d: "deduplicate_data [example_row 1704153000 ''KJFK 012350Z''] =
      [example_row 1704153000 ''KJFK 012350Z'']"
    by (simp add: deduplicate_data_def)
  show ?thesis
    by (subst dump_data_multi [OF midnight_group])
       (simp_all add: s t r p d)
qed

text \<open>
  Flushing the store of the night of 2024-01-02 once writes the partitions of both
  days; flushing again changes nothing.
\<close>

theorem dump_data_idempotent_witness:
  "\<exists>st'. dump_data ''20240102'' 0 midnight_store = Inr st' \<and> dump_data ''20240103'' 0 st' = Inr st'
     \<and> data_file_path st' = ''data/2024/01/20240102.csv''
     \<and> disk st' ''data/2024/01/20240101.csv'' = Some [example_row 1704153000 ''KJFK 012350Z'']
     \<and> disk st' ''data/2024/01/20240102.csv'' = Some [example_row 1704154200 ''KJFK 020010Z'']"
  using dump_data_idempotent [OF midnight_dump] midnight_dump
  by simp


subsection \<open>What the partition files hold after a flush\<close>

text \<open>
  Claim C2, amended: a flush that completes has grouped the deduplicated working set
  by date key, the key of a row being the local calendar day of its time stamp. Every
  partition file that the flush changes holds no two rows with the same report text.
  When the set has at most one key, it is written whole to the active partition file,
  whatever its date. When it has more, the file of the latest key becomes the active
  partition and holds exactly the rows of that key, and every row in a file that the
  flush changes has the date key in that file's name or was in that file before.
\<close>

theorem dump_data_partitions:
  assumes "dump_data today tz st = Inr st'"
  shows "\<exists>gs. group_by_date tz [] (deduplicate_data (data st)) = Inr gs
     \<and> set (map fst gs) = {d. rows_on tz d (deduplicate_data (data st)) \<noteq> []}
     \<and> (\<forall>p rows. disk st' p = Some rows \<longrightarrow> disk st p \<noteq> Some rows \<longrightarrow>
            distinct (map rawmetar rows))
     \<and> (if length gs \<le> 1 then
           data_file_path st' = data_file_path st
           \<and> disk st' (data_file_path st) = Some (deduplicate_data (data st))
         else
           data_file_path st' = data_file_for (target_dir st) (last (sort (map fst gs)))
           \<and> disk st' (data_file_path st') =
               Some (rows_on tz (last (sort (map fst gs))) (deduplicate_data (data st)))
           \<and> (\<forall>p rows. disk st' p = Some rows \<longrightarrow> disk st p \<noteq> Some rows \<longrightarrow>
                 (\<exists>d. p = data_file_for (target_dir st) d
                    \<and> (\<forall>r\<in>set rows. date_key tz (timestamp r) = Inr d
                          \<or> (\<exists>old. disk st p = Some old \<and> r \<in> set old)))))"
proof -
  let ?dd = "deduplicate_data (data st)"
  obtain gs where g: "group_by_date tz [] ?dd = Inr gs"
    using assms by (cases "group_by_date tz [] ?dd") (simp_all add: dump_data_error)
  have dd: "distinct (map rawmetar ?dd)" by (rule deduplicate_data_distinct)
  from group_by_date_result [OF g]
  have keys: "set (map fst gs) = {d. rows_on tz d ?dd \<noteq> []}"
    by auto
  show ?thesis
  proof (cases "1 < length gs")
    case False
    then have l: "length gs \<le> 1" by simp
    have st': "st' = st\<lparr>data := ?dd, disk := (disk st)(data_file_path st \<mapsto> ?dd)\<rparr>"
      using assms dump_data_single [OF g l] by simp
    have "\<forall>p rows. disk st' p = Some rows \<longrightarrow> disk st p \<noteq> Some rows \<longrightarrow>
            distinct (map rawmetar rows)"
      using dd by (auto simp: st' split: if_splits)
    moreover have "data_file_path st' = data_file_path st"
      "disk st' (data_file_path st) = Some ?dd"
      by (simp_all add: st')
    ultimately show ?thesis using g keys l by auto
  next
    case True
    let ?d0 = "hd (sort (map fst gs))" and ?d1 = "last (sort (map fst gs))"
    let ?p0 = "data_file_for (target_dir st) ?d0" and ?p1 = "data_file_for (target_dir st) ?d1"
    let ?old = "case disk st ?p0 of None \<Rightarrow> [] | Some rows \<Rightarrow> rows"
    let ?rows0 = "deduplicate_data (?old @ rows_on tz ?d0 ?dd)"
    let ?rows1 = "rows_on tz ?d1 ?dd"
    have st': "st' = st\<lparr>data_file_path := ?p1, data := ?rows1,
                          disk := (disk st)(?p0 \<mapsto> ?rows0, ?p1 \<mapsto> ?rows1)\<rparr>"
      using assms dump_data_multi [OF g True] by simp
    have path: "data_file_path st' = ?p1" and active: "disk st' (data_file_path st') = Some ?rows1"
      by (simp_all add: st')
    have x0: "distinct (map rawmetar ?rows0)" by (rule deduplicate_data_distinct)
    have x1: "distinct (map rawmetar ?rows1)"
      using dd by (simp add: rows_on_def distinct_map_filter)
    have y1: "\<forall>r\<in>set ?rows1. date_key tz (timestamp r) = Inr ?d1"
      by (simp add: rows_on_date)
    have y0: "\<forall>r\<in>set ?rows0. date_key tz (timestamp r) = Inr ?d0
                \<or> (\<exists>old. disk st ?p0 = Some old \<and> r \<in> set old)"
    proof
      fix r assume "r \<in> set ?rows0"
      then have "r \<in> set ?old \<or> r \<in> set (rows_on tz ?d0 ?dd)"
        using deduplicate_data_subset [of "?old @ rows_on tz ?d0 ?dd"] by auto
      then show "date_key tz (timestamp r) = Inr ?d0
                \<or> (\<exists>old. disk st ?p0 = Some old \<and> r \<in> set old)"
        by (auto dest: rows_on_date split: option.splits)
    qed
    have changed: "(p = ?p1 \<and> rows = ?rows1) \<or> (p \<noteq> ?p1 \<and> p = ?p0 \<and> rows = ?rows0)"
      if "disk st' p = Some rows" and "disk st p \<noteq> Some rows" for p rows
      using that by (auto simp: st' split: if_splits)
    have dist: "\<forall>p rows. disk st' p = Some rows \<longrightarrow> disk st p \<noteq> Some rows \<longrightarrow>
            distinct (map rawmetar rows)"
      using changed x0 x1 by blast
    have dates: "\<forall>p rows. disk st' p = Some rows \<longrightarrow> disk st p \<noteq> Some rows \<longrightarrow>
                 (\<exists>d. p = data_file_for (target_dir st) d
                    \<and> (\<forall>r\<in>set rows. date_key tz (timestamp r) = Inr d
                          \<or> (\<exists>old. disk st p = Some old \<and> r \<in> set old)))"
    proof (intro allI impI)
      fix p rows
      assume a: "disk st' p = Some rows" "disk st p \<noteq> Some rows"
      from changed [OF a] show "\<exists>d. p = data_file_for (target_dir st) d
                    \<and> (\<forall>r\<in>set rows. date_key tz (timestamp r) = Inr d
                          \<or> (\<exists>old. disk st p = Some old \<and> r \<in> set old))"
      proof
        assume "p = ?p1 \<and> rows = ?rows1"
        with y1 show ?thesis by blast
      next
        assume "p \<noteq> ?p1 \<and> p = ?p0 \<and> rows = ?rows0"
        with y0 show ?thesis by blast
      qed
    qed
    from g keys True path active dist dates show ?thesis
      by (intro exI [of _ gs]) (simp add: not_le [symmetric])
  qed
qed

subsection \<open>Flushes of the example stores\<close>

lemma example_paths:
  "data_file_for ''data'' ''20240101'' = ''data/2024/01/20240101.csv''"
  "data_file_for ''data'' ''20240102'' = ''data/2024/01/20240102.csv''"
  "data_file_for ''data'' ''20240103'' = ''data/2024/01/20240103.csv''"
  by (simp_all add: data_file_for_def slice_def)

lemma deduplicate_data_one: "deduplicate_data [r] = [r]"
  by (simp add: deduplicate_data_def)

lemma init_late:
  "init ''20240102'' Map.empty ''data'' Map.empty = Inr (late_store\<lparr>data := []\<rparr>)"
  by (simp add: init_def ensure_data_file_def load_data_def load_data_from_file_def
      example_paths late_store_def Let_def)

lemma init_three_day:
  "init ''20240103'' Map.empty ''data'' Map.empty = Inr (three_day_store\<lparr>data := []\<rparr>)"
  "init ''20240103'' Map.empty ''data'' Map.empty = Inr (three_day_duplicate_store\<lparr>data := []\<rparr>)"
  by (simp_all add: init_def ensure_data_file_def load_data_def load_data_from_file_def
      example_paths three_day_store_def three_day_duplicate_store_def Let_def)

lemma late_group:
  "group_by_date 0 [] (deduplicate_data (data late_store)) =
     Inr [(''20240101'', [example_row 1704153000 ''KJFK 012350Z''])]"
  by (simp add: late_store_def deduplicate_data_one example_dates add_row_def)

text \<open>
  Claim C2, as it stands, fails when the working set lies on one day that is not the
  day of the active partition: a store created on 2024-01-02 that receives a report of
  2024-01-01 23:50 writes it to the file of 2024-01-02.
\<close>

theorem stale_partition_counterexample:
  "init ''20240102'' Map.empty ''data'' Map.empty = Inr (late_store\<lparr>data := []\<rparr>)
   \<and> dump_data ''20240102'' 0 late_store =
       Inr (late_store
         \<lparr>disk := [''data/2024/01/20240102.csv'' \<mapsto> [example_row 1704153000 ''KJFK 012350Z'']]\<rparr>)
   \<and> date_key 0 (timestamp (example_row 1704153000 ''KJFK 012350Z'')) = Inr ''20240101''"
proof -
  have "dump_data ''20240102'' 0 late_store =
       Inr (late_store
         \<lparr>disk := [''data/2024/01/20240102.csv'' \<mapsto> [example_row 1704153000 ''KJFK 012350Z'']]\<rparr>)"
    by (subst dump_data_single [OF late_group]) (simp_all add: late_store_def deduplicate_data_one)
  then show ?thesis by (simp add: init_late example_dates)
qed

lemma three_day_dedup:
  "deduplicate_data (data three_day_store) = data three_day_store"
  "deduplicate_data (data three_day_duplicate_store) = data three_day_store"
  by (simp_all add: three_day_store_def three_day_duplicate_store_def deduplicate_data_def)

lemma three_day_group:
  "group_by_date 0 [] (data three_day_store) =
     Inr [(''20240101'', [example_row 1704067200 ''KJFK 010000Z'']),
          (''20240102'', [example_row 1704153600 ''KJFK 020000Z'']),
          (''20240103'', [example_row 1704240000 ''KJFK 030000Z''])]"
  by (simp add: three_day_store_def example_dates add_row_def)

lemma three_day_rows:
  "rows_on 0 ''20240101'' (data three_day_store) = [example_row 1704067200 ''KJFK 010000Z'']"
  "rows_on 0 ''20240103'' (data three_day_store) = [example_row 1704240000 ''KJFK 030000Z'']"
  by (simp_all add: three_day_store_def rows_on_def example_dates)

lemma three_day_sort:
  "sort (map fst [(''20240101'', [example_row 1704067200 ''KJFK 010000Z'']),
          (''20240102'', [example_row 1704153600 ''KJFK 020000Z'']),
          (''20240103'', [example_row 1704240000 ''KJFK 030000Z''])]) =
     [''20240101'', ''20240102'', ''20240103'']"
  by simp

text \<open>
  Claim C1 at a working set that spans three days: the row of the earliest day is
  written to that day's file and the row of the latest day to the new active
  partition, but the row of the day in between is written to no file and leaves the
  working set.
\<close>

theorem middle_date_dropped:
  "init ''20240103'' Map.empty ''data'' Map.empty = Inr (three_day_store\<lparr>data := []\<rparr>)
   \<and> date_key 0 (timestamp (example_row 1704153600 ''KJFK 020000Z'')) = Inr ''20240102''
   \<and> dump_data ''20240103'' 0 three_day_store =
       Inr (three_day_store
         \<lparr>data := [example_row 1704240000 ''KJFK 030000Z''],
          disk := [''data/2024/01/20240101.csv'' \<mapsto> [example_row 1704067200 ''KJFK 010000Z''],
                   ''data/2024/01/20240103.csv'' \<mapsto> [example_row 1704240000 ''KJFK 030000Z'']]\<rparr>)"
proof -
  have g: "group_by_date 0 [] (deduplicate_data (data three_day_store)) =
     Inr [(''20240101'', [example_row 1704067200 ''KJFK 010000Z'']),
          (''20240102'', [example_row 1704153600 ''KJFK 020000Z'']),
          (''20240103'', [example_row 1704240000 ''KJFK 030000Z''])]"
    by (simp add: three_day_dedup three_day_group)
  have t: "target_dir three_day_store = ''data''"
    "disk three_day_store = [''data/2024/01/20240103.csv'' \<mapsto> []]"
    "data_file_path three_day_store = ''data/2024/01/20240103.csv''"
    by (simp_all add: three_day_store_def)
  have "dump_data ''20240103'' 0 three_day_store =
       Inr (three_day_store
         \<lparr>data := [example_row 1704240000 ''KJFK 030000Z''],
          disk := [''data/2024/01/20240101.csv'' \<mapsto> [example_row 1704067200 ''KJFK 010000Z''],
                   ''data/2024/01/20240103.csv'' \<mapsto> [example_row 1704240000 ''KJFK 030000Z'']]\<rparr>)"
    by (subst dump_data_multi [OF g])
       (simp_all add: three_day_sort three_day_dedup three_day_rows t example_paths
          deduplicate_data_one)
  then show ?thesis by (simp add: init_three_day example_dates)
qed

text \<open>
  Claim C3 at a working set that spans three days, with two rows of one report text on
  the day in between: after the flush no file holds a row with that text.
\<close>

theorem duplicates_on_middle_date_lost:
  "init ''20240103'' Map.empty ''data'' Map.empty = Inr (three_day_duplicate_store\<lparr>data := []\<rparr>)
   \<and> rawmetar (data three_day_duplicate_store ! 1) = rawmetar (data three_day_duplicate_store ! 2)
   \<and> rawmetar (data three_day_duplicate_store ! 1) = ''KJFK 020000Z''
   \<and> dump_data ''20240103'' 0 three_day_duplicate_store =
       Inr (three_day_duplicate_store
         \<lparr>data := [example_row 1704240000 ''KJFK 030000Z''],
          disk := [''data/2024/01/20240101.csv'' \<mapsto> [example_row 1704067200 ''KJFK 010000Z''],
                   ''data/2024/01/20240103.csv'' \<mapsto> [example_row 1704240000 ''KJFK 030000Z'']]\<rparr>)"
proof -
  have g: "group_by_date 0 [] (deduplicate_data (data three_day_duplicate_store)) =
     Inr [(''20240101'', [example_row 1704067200 ''KJFK 010000Z'']),
          (''20240102'', [example_row 1704153600 ''KJFK 020000Z'']),
          (''20240103'', [example_row 1704240000 ''KJFK 030000Z''])]"
    by (simp add: three_day_dedup three_day_group)
  have t: "target_dir three_day_duplicate_store = ''data''"
    "disk three_day_duplicate_store = [''data/2024/01/20240103.csv'' \<mapsto> []]"
    "data_file_path three_day_duplicate_store = ''data/2024/01/20240103.csv''"
    by (simp_all add: three_day_duplicate_store_def)
  have "dump_data ''20240103'' 0 three_day_duplicate_store =
       Inr (three_day_duplicate_store
         \<lparr>data := [example_row 1704240000 ''KJFK 030000Z''],
          disk := [''data/2024/01/20240101.csv'' \<mapsto> [example_row 1704067200 ''KJFK 010000Z''],
                   ''data/2024/01/20240103.csv'' \<mapsto> [example_row 1704240000 ''KJFK 030000Z'']]\<rparr>)"
    by (subst dump_data_multi [OF g])
       (simp_all add: three_day_sort three_day_dedup three_day_rows t example_paths
          deduplicate_data_one)
  moreover have "rawmetar (data three_day_duplicate_store ! 1) = ''KJFK 020000Z''"
    "rawmetar (data three_day_duplicate_store ! 2) = ''KJFK 020000Z''"
    by (simp_all add: three_day_duplicate_store_def)
  ultimately show ?thesis
    by (simp add: init_three_day(2))
qed

text \<open>
  The store of the night of 2024-01-02: two date keys, the report of 23:50 in the file
  of 2024-01-01 and the report of 00:10 in the file of 2024-01-02.
\<close>

theorem dump_data_partitions_witness:
  "dump_data ''20240102'' 0 midnight_store =
     Inr (midnight_store
       \<lparr>data_file_path := ''data/2024/01/20240102.csv'',
        data := [example_row 1704154200 ''KJFK 020010Z''],
        disk := [''data/2024/01/20240101.csv'' \<mapsto> [example_row 1704153000 ''KJFK 012350Z''],
                 ''data/2024/01/20240102.csv'' \<mapsto> [example_row 1704154200 ''KJFK 020010Z'']]\<rparr>)
   \<and> (\<exists>gs. group_by_date 0 [] (deduplicate_data (data midnight_store)) = Inr gs
         \<and> set (map fst gs) = {''20240101'', ''20240102''} \<and> length gs = 2)
   \<and> date_key 0 (timestamp (example_row 1704153000 ''KJFK 012350Z'')) = Inr ''20240101''
   \<and> date_key 0 (timestamp (example_row 1704154200 ''KJFK 020010Z'')) = Inr ''20240102''"
  using dump_data_partitions [OF midnight_dump] midnight_dump
  by (simp add: midnight_group example_dates)

end
